theory Spec2Isabelle
  imports Complex_Main
begin

section \<open>Vectors and matrices\<close>

text \<open>
  The program of \<^verbatim>\<open>RayTracingUBO/main.cpp\<close> computes with the GLM types
  \<^verbatim>\<open>glm::vec3\<close>, \<^verbatim>\<open>glm::vec4\<close> and \<^verbatim>\<open>glm::mat4\<close> over \<^verbatim>\<open>float\<close>.
  Numbers of type \<^verbatim>\<open>float\<close> and \<^verbatim>\<open>double\<close> are idealised as \<^typ>\<open>real\<close>: every
  statement below is about the formulas the code evaluates, not about rounding.
  A \<^verbatim>\<open>glm::mat4\<close> is stored column by column, \<^verbatim>\<open>m[i]\<close> being column \<open>i\<close>.
\<close>

datatype vec3 = Vec3 (x3: real) (y3: real) (z3: real)

datatype vec4 = Vec4 (x4: real) (y4: real) (z4: real) (w4: real)

datatype mat4 = Mat4 (col0: vec4) (col1: vec4) (col2: vec4) (col3: vec4)

text \<open>\<^verbatim>\<open>a - b\<close> and \<^verbatim>\<open>-a\<close> on \<^verbatim>\<open>glm::vec3\<close>.\<close>

definition vec3_sub :: "vec3 \<Rightarrow> vec3 \<Rightarrow> vec3" where
  "vec3_sub a b = Vec3 (x3 a - x3 b) (y3 a - y3 b) (z3 a - z3 b)"

definition vec3_neg :: "vec3 \<Rightarrow> vec3" where
  "vec3_neg a = Vec3 (- x3 a) (- y3 a) (- z3 a)"

definition vec3_add :: "vec3 \<Rightarrow> vec3 \<Rightarrow> vec3" where
  "vec3_add a b = Vec3 (x3 a + x3 b) (y3 a + y3 b) (z3 a + z3 b)"

text \<open>\<^verbatim>\<open>s * v\<close>, \<^verbatim>\<open>v / s\<close> and the one-argument constructor \<^verbatim>\<open>glm::vec3(s)\<close>.\<close>

definition vec3_smul :: "real \<Rightarrow> vec3 \<Rightarrow> vec3" where
  "vec3_smul s v = Vec3 (s * x3 v) (s * y3 v) (s * z3 v)"

definition vec3_div :: "vec3 \<Rightarrow> real \<Rightarrow> vec3" where
  "vec3_div v s = Vec3 (x3 v / s) (y3 v / s) (z3 v / s)"

definition vec3_splat :: "real \<Rightarrow> vec3" where
  "vec3_splat s = Vec3 s s s"

text \<open>\<^verbatim>\<open>glm::dot\<close>, \<^verbatim>\<open>glm::cross\<close> and \<^verbatim>\<open>glm::normalize\<close> on \<^verbatim>\<open>vec3\<close>.\<close>

definition dot3 :: "vec3 \<Rightarrow> vec3 \<Rightarrow> real" where
  "dot3 a b = x3 a * x3 b + y3 a * y3 b + z3 a * z3 b"

definition cross :: "vec3 \<Rightarrow> vec3 \<Rightarrow> vec3" where
  "cross a b = Vec3 (y3 a * z3 b - y3 b * z3 a)
                    (z3 a * x3 b - z3 b * x3 a)
                    (x3 a * y3 b - x3 b * y3 a)"

definition normalize :: "vec3 \<Rightarrow> vec3" where
  "normalize v = vec3_smul (1 / sqrt (dot3 v v)) v"

text \<open>\<^verbatim>\<open>glm::vec4(v, w)\<close> and \<^verbatim>\<open>glm::vec3(v4)\<close>.\<close>

definition vec4_of :: "vec3 \<Rightarrow> real \<Rightarrow> vec4" where
  "vec4_of v w = Vec4 (x3 v) (y3 v) (z3 v) w"

definition vec3_of :: "vec4 \<Rightarrow> vec3" where
  "vec3_of v = Vec3 (x4 v) (y4 v) (z4 v)"

definition vec4_add :: "vec4 \<Rightarrow> vec4 \<Rightarrow> vec4" where
  "vec4_add a b = Vec4 (x4 a + x4 b) (y4 a + y4 b) (z4 a + z4 b) (w4 a + w4 b)"

definition vec4_smul :: "vec4 \<Rightarrow> real \<Rightarrow> vec4" where
  "vec4_smul v s = Vec4 (x4 v * s) (y4 v * s) (z4 v * s) (w4 v * s)"

definition dot4 :: "vec4 \<Rightarrow> vec4 \<Rightarrow> real" where
  "dot4 a b = x4 a * x4 b + y4 a * y4 b + z4 a * z4 b + w4 a * w4 b"

text \<open>
  \<^verbatim>\<open>glm::mat4()\<close>: the code relies on the default constructor giving the identity
  (as GLM did before 0.9.9): \<^verbatim>\<open>test[1] = glm::mat4()\<close> is then translated, rotated and
  scaled.
\<close>

definition mat4_identity :: mat4 where
  "mat4_identity = Mat4 (Vec4 1 0 0 0) (Vec4 0 1 0 0) (Vec4 0 0 1 0) (Vec4 0 0 0 1)"

text \<open>
  \<^verbatim>\<open>v * m\<close> with the vector on the left, as \<^verbatim>\<open>calcCameraRays\<close> writes it: GLM takes \<open>v\<close> as
  a row vector, so component \<open>i\<close> of the result is the dot product of \<open>v\<close> with
  column \<open>i\<close>.
\<close>

definition vec4_mul_mat4 :: "vec4 \<Rightarrow> mat4 \<Rightarrow> vec4" where
  "vec4_mul_mat4 v m = Vec4 (dot4 (col0 m) v) (dot4 (col1 m) v) (dot4 (col2 m) v) (dot4 (col3 m) v)"

text \<open>
  \<^verbatim>\<open>m * v\<close> with the vector on the right: the way a transform of the matrix buffer is
  applied to a point. The program itself never forms this product (the compute shader
  does); it is used below to say what a transform does to a point.
\<close>

definition mat4_mul_vec4 :: "mat4 \<Rightarrow> vec4 \<Rightarrow> vec4" where
  "mat4_mul_vec4 m v =
     vec4_add (vec4_add (vec4_add (vec4_smul (col0 m) (x4 v)) (vec4_smul (col1 m) (y4 v)))
                        (vec4_smul (col2 m) (z4 v)))
              (vec4_smul (col3 m) (w4 v))"

subsection \<open>The GLM transformations the program calls\<close>

text \<open>
  Modelled from the spec: \<^verbatim>\<open>glm::translate\<close>, \<^verbatim>\<open>glm::rotate\<close>, \<^verbatim>\<open>glm::scale\<close> and
  \<^verbatim>\<open>glm::radians\<close> belong to the GLM headers (\<^verbatim>\<open>glm/gtc/matrix_transform.hpp\<close>), which
  the repository includes but does not contain. They are written here as GLM
  documents them: each takes a matrix \<open>m\<close> and returns \<open>m\<close> multiplied on the right by
  the translation, rotation (angle in radians, axis normalised first) or scaling
  matrix, which is what the spec's ``translate, rotate, scale, rightmost applied
  first'' says.
\<close>

definition glm_translate :: "mat4 \<Rightarrow> vec3 \<Rightarrow> mat4" where
  "glm_translate m v =
     Mat4 (col0 m) (col1 m) (col2 m)
          (vec4_add (vec4_add (vec4_add (vec4_smul (col0 m) (x3 v)) (vec4_smul (col1 m) (y3 v)))
                              (vec4_smul (col2 m) (z3 v)))
                    (col3 m))"

definition glm_scale :: "mat4 \<Rightarrow> vec3 \<Rightarrow> mat4" where
  "glm_scale m v =
     Mat4 (vec4_smul (col0 m) (x3 v)) (vec4_smul (col1 m) (y3 v)) (vec4_smul (col2 m) (z3 v))
          (col3 m)"

definition glm_rotate :: "mat4 \<Rightarrow> real \<Rightarrow> vec3 \<Rightarrow> mat4" where
  "glm_rotate m angle v =
     (let c = cos angle; s = sin angle;
          axis = normalize v;
          temp = vec3_smul (1 - c) axis;
          r00 = c + x3 temp * x3 axis;
          r01 = x3 temp * y3 axis + s * z3 axis;
          r02 = x3 temp * z3 axis - s * y3 axis;
          r10 = y3 temp * x3 axis - s * z3 axis;
          r11 = c + y3 temp * y3 axis;
          r12 = y3 temp * z3 axis + s * x3 axis;
          r20 = z3 temp * x3 axis + s * y3 axis;
          r21 = z3 temp * y3 axis - s * x3 axis;
          r22 = c + z3 temp * z3 axis
      in Mat4 (vec4_add (vec4_add (vec4_smul (col0 m) r00) (vec4_smul (col1 m) r01))
                        (vec4_smul (col2 m) r02))
              (vec4_add (vec4_add (vec4_smul (col0 m) r10) (vec4_smul (col1 m) r11))
                        (vec4_smul (col2 m) r12))
              (vec4_add (vec4_add (vec4_smul (col0 m) r20) (vec4_smul (col1 m) r21))
                        (vec4_smul (col2 m) r22))
              (col3 m))"

definition radians :: "real \<Rightarrow> real" where
  "radians degrees = degrees * (pi / 180)"

section \<open>The camera: \<^verbatim>\<open>calcCameraRays\<close>\<close>

text \<open>
  The five \<^verbatim>\<open>glUniform3f\<close> calls that end \<^verbatim>\<open>calcCameraRays\<close> deliver the eye position
  and the four corner rays to the uniforms \<^verbatim>\<open>eye\<close>, \<^verbatim>\<open>ray00\<close>, \<^verbatim>\<open>ray01\<close>, \<^verbatim>\<open>ray10\<close>,
  \<^verbatim>\<open>ray11\<close> of the draw program. The record holds their arguments.
\<close>

record camera_uniforms =
  u_eye :: vec3
  u_ray00 :: vec3
  u_ray01 :: vec3
  u_ray10 :: vec3
  u_ray11 :: vec3

definition calcCameraRays :: "vec3 \<Rightarrow> vec3 \<Rightarrow> vec3 \<Rightarrow> real \<Rightarrow> real \<Rightarrow> camera_uniforms" where
  "calcCameraRays eye center up fov ratio =
     (let centerRay = vec3_sub center eye;
          w = vec3_neg centerRay;
          u = cross up w;
          v = cross w u;
          uRotateLeft = vec4_mul_mat4 (vec4_of u 1)
                          (glm_rotate mat4_identity (radians (- fov * ratio / 2)) v);
          uRotateRight = vec4_mul_mat4 (vec4_of u 1)
                          (glm_rotate mat4_identity (radians (fov * ratio / 2)) v);
          r00 = vec4_mul_mat4
                  (vec4_mul_mat4 (vec4_of centerRay 1)
                     (glm_rotate mat4_identity (radians (- fov * ratio / 2)) v))
                  (glm_rotate mat4_identity (radians (fov / 2)) (vec3_of uRotateLeft));
          r01 = vec4_mul_mat4
                  (vec4_mul_mat4 (vec4_of centerRay 1)
                     (glm_rotate mat4_identity (radians (- fov * ratio / 2)) v))
                  (glm_rotate mat4_identity (radians (- fov / 2)) (vec3_of uRotateLeft));
          r10 = vec4_mul_mat4
                  (vec4_mul_mat4 (vec4_of centerRay 1)
                     (glm_rotate mat4_identity (radians (fov * ratio / 2)) v))
                  (glm_rotate mat4_identity (radians (fov / 2)) (vec3_of uRotateRight));
          r11 = vec4_mul_mat4
                  (vec4_mul_mat4 (vec4_of centerRay 1)
                     (glm_rotate mat4_identity (radians (fov * ratio / 2)) v))
                  (glm_rotate mat4_identity (radians (- fov / 2)) (vec3_of uRotateRight))
      in \<lparr>u_eye = Vec3 (x3 eye) (y3 eye) (z3 eye),
          u_ray00 = Vec3 (x4 r00) (y4 r00) (z4 r00),
          u_ray01 = Vec3 (x4 r01) (y4 r01) (z4 r01),
          u_ray10 = Vec3 (x4 r10) (y4 r10) (z4 r10),
          u_ray11 = Vec3 (x4 r11) (y4 r11) (z4 r11)\<rparr>)"

section \<open>The scene of one frame\<close>

text \<open>
  \<^verbatim>\<open>struct light\<close>. The padding fields \<^verbatim>\<open>junk1\<close>, \<^verbatim>\<open>junk2\<close> are never written
  and are left out.
\<close>

record light =
  light_pos :: vec4
  light_color :: vec4
  light_radius :: real
  light_brightness :: real

text \<open>
  The local array \<^verbatim>\<open>glm::mat4x4 test[2]\<close> of \<^verbatim>\<open>renderScene\<close> as a function of the local
  \<^verbatim>\<open>time\<close>: the floor is scaled, the cube is translated, rotated and scaled.
\<close>

definition test_matrices :: "real \<Rightarrow> mat4 list" where
  "test_matrices time =
     (let test0 = glm_scale mat4_identity (vec3_div (vec3_splat (sin time + 6)) 3);
          test1 = mat4_identity;
          test1 = glm_translate test1 (Vec3 (2 * cos time) 1.5 (2 * sin time));
          test1 = glm_rotate test1 (- time) (Vec3 0 1 0);
          test1 = glm_scale test1 (vec3_splat ((1 + sin time) / 2))
      in [test0, test1])"

text \<open>The local array \<^verbatim>\<open>light lights[2]\<close> of \<^verbatim>\<open>renderScene\<close>.\<close>

definition lights_array :: "real \<Rightarrow> light list" where
  "lights_array time =
     [\<lparr>light_pos = Vec4 (2 * sin time) 4 (2 * cos time) 0,
       light_color = Vec4 1 1 1 0,
       light_radius = 7,
       light_brightness = 1\<rparr>,
      \<lparr>light_pos = Vec4 (4 * cos time) 1 4 0,
       light_color = Vec4 1 0 0 0,
       light_radius = 2,
       light_brightness = 2\<rparr>]"

subsection \<open>The animation as the specification words it\<close>

text \<open>
  Uniform scaling, rotation about the vertical (Y) axis by an angle in radians
  (counter-clockwise seen from above, the right-handed convention) and translation, each
  on a point of space.
\<close>

definition scale_point :: "real \<Rightarrow> vec3 \<Rightarrow> vec3" where
  "scale_point k p = Vec3 (k * x3 p) (k * y3 p) (k * z3 p)"

definition rotate_y_point :: "real \<Rightarrow> vec3 \<Rightarrow> vec3" where
  "rotate_y_point a p =
     Vec3 (cos a * x3 p + sin a * z3 p) (y3 p) (- sin a * x3 p + cos a * z3 p)"

definition translate_point :: "vec3 \<Rightarrow> vec3 \<Rightarrow> vec3" where
  "translate_point d p = vec3_add p d"

definition apply_transform :: "mat4 \<Rightarrow> vec3 \<Rightarrow> vec4" where
  "apply_transform m p = mat4_mul_vec4 m (vec4_of p 1)"

section \<open>Decimal output\<close>

text \<open>
  \<^verbatim>\<open>std::to_string(int)\<close> and the conversion \<^verbatim>\<open>%d\<close> of \<^verbatim>\<open>sprintf\<close>: an optional minus sign
  and the decimal digits, without padding.
\<close>

definition digit_char :: "nat \<Rightarrow> char" where
  "digit_char d = ''0123456789'' ! d"

fun nat_to_string :: "nat \<Rightarrow> string" where
  "nat_to_string n =
     (if n < 10 then [digit_char n] else nat_to_string (n div 10) @ [digit_char (n mod 10)])"

declare nat_to_string.simps [simp del]

definition to_string :: "int \<Rightarrow> string" where
  "to_string i = (if i < 0 then CHR ''-'' # nat_to_string (nat (- i)) else nat_to_string (nat i))"

section \<open>Integer arithmetic of C++\<close>

text \<open>
  The conversion \<^verbatim>\<open>(int)\<close> of a \<^verbatim>\<open>double\<close> and the division of two \<^verbatim>\<open>int\<close>s both
  truncate toward zero. The counters of the program stay far below \<open>2\<^sup>3\<^sup>1\<close> in a
  session of 600 frames, so \<^verbatim>\<open>int\<close> is modelled by \<^typ>\<open>int\<close>.
\<close>

definition int_of_double :: "real \<Rightarrow> int" where
  "int_of_double r = (if 0 \<le> r then \<lfloor>r\<rfloor> else \<lceil>r\<rceil>)"

definition int_div :: "int \<Rightarrow> int \<Rightarrow> int" where
  "int_div a b = (if (0 \<le> a) = (0 \<le> b) then \<bar>a\<bar> div \<bar>b\<bar> else - (\<bar>a\<bar> div \<bar>b\<bar>))"

section \<open>Meshes\<close>

text \<open>
  \<^verbatim>\<open>struct triangle\<close> and \<^verbatim>\<open>struct Mesh\<close>. A mesh has the fixed array
  \<^verbatim>\<open>triangle triangles[12]\<close>: a list of 12 slots, a slot the code never assigns being
  \<open>None\<close>. The padding fields \<^verbatim>\<open>junk1\<close>, \<^verbatim>\<open>junk2\<close>, \<^verbatim>\<open>junk3\<close> are never written and are
  left out.
\<close>

record triangle =
  tri_a :: vec4
  tri_b :: vec4
  tri_c :: vec4
  tri_normal :: vec4
  tri_color :: vec4

record Mesh =
  numTriangles :: int
  triangles :: "triangle option list"

definition mesh_capacity :: nat where
  "mesh_capacity = 12"

definition mk_triangle :: "vec4 \<Rightarrow> vec4 \<Rightarrow> vec4 \<Rightarrow> vec4 \<Rightarrow> vec4 \<Rightarrow> triangle" where
  "mk_triangle a b c n col =
     \<lparr>tri_a = a, tri_b = b, tri_c = c, tri_normal = n, tri_color = col\<rparr>"

text \<open>The local array \<^verbatim>\<open>Mesh meshes[2]\<close> of \<^verbatim>\<open>init\<close> after its assignments.\<close>

definition scene_meshes :: "Mesh list" where
  "scene_meshes =
     [\<lparr>numTriangles = 2,
       triangles =
         [Some (mk_triangle (Vec4 (-5) 0 5 1) (Vec4 (-5) 0 (-5) 1) (Vec4 5 0 (-5) 1)
                  (Vec4 0 1 0 1) (Vec4 1 1 1 1)),
          Some (mk_triangle (Vec4 (-5) 0 5 1) (Vec4 5 0 (-5) 1) (Vec4 5 0 5 1)
                  (Vec4 0 1 0 1) (Vec4 1 1 1 1))]
         @ replicate 10 None\<rparr>,
      \<lparr>numTriangles = 12,
       triangles =
         [Some (mk_triangle (Vec4 (-0.5) (-0.5) (-0.5) 1) (Vec4 0.5 (-0.5) (-0.5) 1)
                  (Vec4 (-0.5) 0.5 (-0.5) 1) (Vec4 0 0 (-1) 1) (Vec4 1 0.5 0.1 1)),
          Some (mk_triangle (Vec4 0.5 (-0.5) (-0.5) 1) (Vec4 0.5 0.5 (-0.5) 1)
                  (Vec4 (-0.5) 0.5 (-0.5) 1) (Vec4 0 0 (-1) 1) (Vec4 1 0.5 0.1 1)),
          Some (mk_triangle (Vec4 (-0.5) (-0.5) 0.5 1) (Vec4 (-0.5) 0.5 0.5 1)
                  (Vec4 0.5 0.5 0.5 1) (Vec4 0 0 1 1) (Vec4 1 0.5 0.1 1)),
          Some (mk_triangle (Vec4 (-0.5) (-0.5) 0.5 1) (Vec4 0.5 0.5 0.5 1)
                  (Vec4 0.5 (-0.5) 0.5 1) (Vec4 0 0 1 1) (Vec4 1 0.5 0.1 1)),
          Some (mk_triangle (Vec4 0.5 (-0.5) 0.5 1) (Vec4 0.5 0.5 0.5 1)
                  (Vec4 0.5 0.5 (-0.5) 1) (Vec4 1 0 0 1) (Vec4 1 0.5 0.1 1)),
          Some (mk_triangle (Vec4 0.5 (-0.5) 0.5 1) (Vec4 0.5 0.5 (-0.5) 1)
                  (Vec4 0.5 (-0.5) (-0.5) 1) (Vec4 1 0 0 1) (Vec4 1 0.5 0.1 1)),
          Some (mk_triangle (Vec4 (-0.5) (-0.5) (-0.5) 1) (Vec4 (-0.5) 0.5 (-0.5) 1)
                  (Vec4 (-0.5) 0.5 0.5 1) (Vec4 (-1) 0 0 1) (Vec4 1 0.5 0.1 1)),
          Some (mk_triangle (Vec4 (-0.5) (-0.5) (-0.5) 1) (Vec4 (-0.5) 0.5 0.5 1)
                  (Vec4 (-0.5) (-0.5) 0.5 1) (Vec4 (-1) 0 0 1) (Vec4 1 0.5 0.1 1)),
          Some (mk_triangle (Vec4 (-0.5) 0.5 0.5 1) (Vec4 (-0.5) 0.5 (-0.5) 1)
                  (Vec4 0.5 0.5 (-0.5) 1) (Vec4 0 1 0 1) (Vec4 1 0.5 0.1 1)),
          Some (mk_triangle (Vec4 (-0.5) 0.5 0.5 1) (Vec4 0.5 0.5 (-0.5) 1)
                  (Vec4 0.5 0.5 0.5 1) (Vec4 0 1 0 1) (Vec4 1 0.5 0.1 1)),
          Some (mk_triangle (Vec4 (-0.5) (-0.5) 0.5 1) (Vec4 (-0.5) (-0.5) (-0.5) 1)
                  (Vec4 0.5 (-0.5) (-0.5) 1) (Vec4 0 (-1) 0 1) (Vec4 1 0.5 0.1 1)),
          Some (mk_triangle (Vec4 (-0.5) (-0.5) 0.5 1) (Vec4 0.5 (-0.5) (-0.5) 1)
                  (Vec4 0.5 (-0.5) 0.5 1) (Vec4 0 (-1) 0 1) (Vec4 1 0.5 0.1 1))]\<rparr>]"

section \<open>Buffer sizes\<close>

text \<open>
  \<^verbatim>\<open>sizeof\<close> of the records that go into buffers, in bytes: a \<^verbatim>\<open>float\<close> and an \<^verbatim>\<open>int\<close>
  take 4 bytes, a \<^verbatim>\<open>glm::vec4\<close> 16, a \<^verbatim>\<open>glm::mat4x4\<close> 64. The four size variables
  of the program are never assigned after their initialisation.
\<close>

definition sizeof_triangle :: int where
  "sizeof_triangle = 5 * 16"

definition sizeof_Mesh :: int where
  "sizeof_Mesh = 4 * 4 + 12 * sizeof_triangle"

definition sizeof_light :: int where
  "sizeof_light = 2 * 16 + 4 * 4"

definition sizeof_mat4 :: int where
  "sizeof_mat4 = 64"

definition compToFragSize :: int where
  "compToFragSize = sizeof_triangle * 14"

definition lightToFragSize :: int where
  "lightToFragSize = sizeof_light * 2"

definition matrixBufferSize :: int where
  "matrixBufferSize = sizeof_mat4 * 2"

definition triangleBufferSize :: int where
  "triangleBufferSize = sizeof_Mesh * 2"

section \<open>The state of the program and of its surroundings\<close>

text \<open>
  What a buffer object of the OpenGL context holds after \<^verbatim>\<open>glBufferData\<close>: the size
  that was asked for and the data that was copied (\<open>NullData\<close> for \<^verbatim>\<open>nullptr\<close>).
\<close>

datatype buffer_data =
  NullData
  | MatrixData "mat4 list"
  | LightData "light list"
  | MeshData "Mesh list"

record buffer_object =
  buf_size :: int
  buf_data :: buffer_data

text \<open>One read-back of the framebuffer and one image file written.\<close>

record readback =
  rb_width :: int
  rb_height :: int
  rb_buffer_size :: int

record exported_file =
  file_name :: string
  image_width :: int
  image_height :: int

text \<open>
  The state has three parts. First the global variables of \<^verbatim>\<open>main.cpp\<close>, under their
  own names (object names of type \<^verbatim>\<open>GLuint\<close> are natural numbers). Then the OpenGL
  context: the buffer store, the binding points, the programs and shaders, the camera
  uniforms, the viewport, and counts of the dispatches and draws issued. Last what the
  operator and the file system see: the window title, the lines printed on
  \<^verbatim>\<open>std::cout\<close>, the size of the array \<^verbatim>\<open>pixels\<close> of \<^verbatim>\<open>main\<close>, the read-backs made,
  the image files written and the commands given to \<^verbatim>\<open>system\<close>.
\<close>

record state =
  compToFrag :: nat
  lightToFrag :: nat
  matrixBuffer :: nat
  triangleBuffer :: nat
  draw_program :: nat
  transform_program :: nat
  vertex_shader :: nat
  fragment_shader :: nat
  compute_shader :: nat
  cameraPos :: vec3
  tempFrame :: int
  totalFrame :: int
  dtime :: real
  timebase :: real
  totalTime :: real
  fps :: int
  width :: int
  height :: int
  videoFPS :: int
  videoSeconds :: int
  maxFrames :: int
  gl_buffers :: "nat \<Rightarrow> buffer_object option"
  gl_next_buffer :: nat
  gl_uniform_buffer_binding :: nat
  gl_storage_binding :: "nat \<Rightarrow> nat"
  gl_shaders :: "nat \<Rightarrow> bool option"
  gl_attached :: "nat \<Rightarrow> nat list"
  gl_next_object :: nat
  gl_current_program :: nat
  gl_uniforms :: "camera_uniforms option"
  gl_viewport :: "int \<times> int \<times> int \<times> int"
  gl_dispatches :: "(nat \<times> nat \<times> nat) list"
  gl_draws :: nat
  window_title :: string
  console :: "string list"
  pixels_size :: int
  readbacks :: "readback list"
  exportedFrames :: "exported_file list"
  commands :: "string list"

text \<open>
  What the program reads from outside: the clock (\<^verbatim>\<open>glfwGetTime\<close> in iteration \<open>k\<close> of
  the loop), the window-size events that \<^verbatim>\<open>glfwPollEvents\<close> delivers in iteration \<open>k\<close>,
  the files of the shaders, and the verdict and info log of the shader compiler.
\<close>

datatype shader_type = GL_VERTEX_SHADER | GL_FRAGMENT_SHADER | GL_COMPUTE_SHADER

record environment =
  clock :: "nat \<Rightarrow> real"
  window_events :: "nat \<Rightarrow> (int \<times> int) list"
  file_contents :: "string \<Rightarrow> string option"
  compile_status :: "shader_type \<Rightarrow> string \<Rightarrow> bool"
  info_log :: "shader_type \<Rightarrow> string \<Rightarrow> string"

section \<open>The OpenGL, GLFW and FreeImage calls\<close>

text \<open>
  Modelled from the spec: OpenGL, GLFW and FreeImage are the external collaborators
  of the spec (backend, windowing, still-image encoder); the repository holds none of
  their code. Each call is written with the effect its API documents, as far as the
  state above records it. \<^verbatim>\<open>glGenBuffers\<close>, \<^verbatim>\<open>glCreateShader\<close> and \<^verbatim>\<open>glCreateProgram\<close>
  return names never used before: the next of a counter that starts at 1.
  \<^verbatim>\<open>glBufferData\<close> gives the buffer bound to \<^verbatim>\<open>GL_UNIFORM_BUFFER\<close> a new store of the
  size asked for and copies the data; with no buffer bound, or a negative size, it
  is an error without effect.
\<close>

definition glGenBuffers :: "state \<Rightarrow> nat \<times> state" where
  "glGenBuffers s = (gl_next_buffer s, s\<lparr>gl_next_buffer := Suc (gl_next_buffer s)\<rparr>)"

definition glBindBuffer :: "nat \<Rightarrow> state \<Rightarrow> state" where
  "glBindBuffer buffer s = s\<lparr>gl_uniform_buffer_binding := buffer\<rparr>"

definition glBufferData :: "int \<Rightarrow> buffer_data \<Rightarrow> state \<Rightarrow> state" where
  "glBufferData nbytes dat s =
     (if gl_uniform_buffer_binding s = 0 \<or> nbytes < 0 then s
      else s\<lparr>gl_buffers := (gl_buffers s)
                 (gl_uniform_buffer_binding s \<mapsto> \<lparr>buf_size = nbytes, buf_data = dat\<rparr>)\<rparr>)"

definition glBindBufferBase :: "nat \<Rightarrow> nat \<Rightarrow> state \<Rightarrow> state" where
  "glBindBufferBase index buffer s = s\<lparr>gl_storage_binding := (gl_storage_binding s)(index := buffer)\<rparr>"

definition glUseProgram :: "nat \<Rightarrow> state \<Rightarrow> state" where
  "glUseProgram program s = s\<lparr>gl_current_program := program\<rparr>"

definition glDispatchCompute :: "nat \<Rightarrow> nat \<Rightarrow> nat \<Rightarrow> state \<Rightarrow> state" where
  "glDispatchCompute x y z s = s\<lparr>gl_dispatches := gl_dispatches s @ [(x, y, z)]\<rparr>"

definition glDrawArrays :: "state \<Rightarrow> state" where
  "glDrawArrays s = s\<lparr>gl_draws := Suc (gl_draws s)\<rparr>"

definition glViewport :: "int \<Rightarrow> int \<Rightarrow> int \<Rightarrow> int \<Rightarrow> state \<Rightarrow> state" where
  "glViewport x y w h s = s\<lparr>gl_viewport := (x, y, w, h)\<rparr>"

definition glCreateShader :: "state \<Rightarrow> nat \<times> state" where
  "glCreateShader s = (gl_next_object s, s\<lparr>gl_next_object := Suc (gl_next_object s)\<rparr>)"

definition glCompileShader :: "nat \<Rightarrow> bool \<Rightarrow> state \<Rightarrow> state" where
  "glCompileShader shader status s = s\<lparr>gl_shaders := (gl_shaders s)(shader \<mapsto> status)\<rparr>"

definition glDeleteShader :: "nat \<Rightarrow> state \<Rightarrow> state" where
  "glDeleteShader shader s = s\<lparr>gl_shaders := (gl_shaders s)(shader := None)\<rparr>"

definition glCreateProgram :: "state \<Rightarrow> nat \<times> state" where
  "glCreateProgram s = (gl_next_object s, s\<lparr>gl_next_object := Suc (gl_next_object s)\<rparr>)"

definition glAttachShader :: "nat \<Rightarrow> nat \<Rightarrow> state \<Rightarrow> state" where
  "glAttachShader program shader s =
     (if gl_shaders s shader = None then s
      else s\<lparr>gl_attached := (gl_attached s)(program := gl_attached s program @ [shader])\<rparr>)"

definition glDeleteProgram :: "nat \<Rightarrow> state \<Rightarrow> state" where
  "glDeleteProgram program s = s\<lparr>gl_attached := (gl_attached s)(program := [])\<rparr>"

definition glfwSetWindowTitle :: "string \<Rightarrow> state \<Rightarrow> state" where
  "glfwSetWindowTitle title s = s\<lparr>window_title := title\<rparr>"

text \<open>
  \<^verbatim>\<open>glReadPixels(0, 0, w, h, GL_BGR, GL_UNSIGNED_BYTE, pixels)\<close> writes the image of
  \<open>w \<times> h\<close> pixels, three bytes each, into the array \<^verbatim>\<open>pixels\<close>; the read-back is
  recorded with the size the array has at that moment.
\<close>

definition glReadPixels :: "int \<Rightarrow> int \<Rightarrow> state \<Rightarrow> state" where
  "glReadPixels w h s =
     s\<lparr>readbacks := readbacks s @ [\<lparr>rb_width = w, rb_height = h, rb_buffer_size = pixels_size s\<rparr>]\<rparr>"

text \<open>
  \<^verbatim>\<open>FreeImage_ConvertFromRawBits\<close>, \<^verbatim>\<open>FreeImage_Save\<close> and \<^verbatim>\<open>FreeImage_Unload\<close> together:
  one image file of the given name and dimensions is written.
\<close>

definition FreeImage_Save :: "string \<Rightarrow> int \<Rightarrow> int \<Rightarrow> state \<Rightarrow> state" where
  "FreeImage_Save fileName w h s =
     s\<lparr>exportedFrames := exportedFrames s @
         [\<lparr>file_name = fileName, image_width = w, image_height = h\<rparr>]\<rparr>"

section \<open>The functions of \<^verbatim>\<open>main.cpp\<close>\<close>

subsection \<open>\<^verbatim>\<open>renderScene\<close>\<close>

text \<open>
  \<^verbatim>\<open>renderScene\<close> runs once per frame. Its argument \<open>now\<close> is what \<^verbatim>\<open>glfwGetTime\<close>
  returns. The result of \<^verbatim>\<open>calcCameraRays\<close> is stored as the camera uniforms (the five
  \<^verbatim>\<open>glUniform3f\<close> calls). \<^verbatim>\<open>(float)totalFrame / videoFPS\<close> and \<^verbatim>\<open>(float)width / height\<close>
  are divisions of \<^verbatim>\<open>float\<close>s. The string \<^verbatim>\<open>s\<close> that becomes the window title is
  \<open>title_text\<close> of \<^verbatim>\<open>fps\<close>, \<^verbatim>\<open>totalFrame\<close> and \<^verbatim>\<open>maxFrames\<close>.
\<close>

definition title_text :: "int \<Rightarrow> int \<Rightarrow> int \<Rightarrow> string" where
  "title_text f frame frames =
     ''FPS: '' @ to_string f @ '' Frame: '' @ to_string frame @ '' / '' @ to_string frames"

definition renderScene :: "real \<Rightarrow> state \<Rightarrow> state" where
  "renderScene now s =
     (let s = s\<lparr>dtime := now\<rparr>;
          s = s\<lparr>totalTime := dtime s\<rparr>;
          s = (if dtime s - timebase s > 1
               then (let s = s\<lparr>fps := int_div (tempFrame s) (int_of_double (dtime s - timebase s))\<rparr>;
                         s = s\<lparr>timebase := dtime s\<rparr>;
                         s = s\<lparr>tempFrame := 0\<rparr>;
                         title = title_text (fps s) (totalFrame s) (maxFrames s)
                     in glfwSetWindowTitle title s)
               else s);
          s = s\<lparr>cameraPos := Vec3 0 8 8\<rparr>;
          totalTimeElapsedInVideo = real_of_int (totalFrame s) / real_of_int (videoFPS s);
          totalTimeElapsedInProgram = totalTime s;
          time = totalTimeElapsedInVideo;
          s = glUseProgram (transform_program s) s;
          test = test_matrices time;
          s = glBindBuffer (matrixBuffer s) s;
          s = glBufferData matrixBufferSize (MatrixData test) s;
          s = glBindBuffer 0 s;
          s = glBindBufferBase 0 (compToFrag s) s;
          s = glBindBufferBase 1 (triangleBuffer s) s;
          s = glBindBufferBase 2 (matrixBuffer s) s;
          s = glDispatchCompute 14 1 1 s;
          s = glUseProgram (draw_program s) s;
          lights = lights_array time;
          s = glBindBuffer (lightToFrag s) s;
          s = glBufferData lightToFragSize (LightData lights) s;
          s = glBindBuffer 0 s;
          s = glBindBufferBase 0 (compToFrag s) s;
          s = glBindBufferBase 1 (lightToFrag s) s;
          s = s\<lparr>gl_uniforms := Some (calcCameraRays (cameraPos s) (Vec3 0 0.5 0) (Vec3 0 1 0) 45
                                      (real_of_int (width s) / real_of_int (height s)))\<rparr>;
          s = glDrawArrays s;
          s = s\<lparr>tempFrame := tempFrame s + 1\<rparr>;
          s = s\<lparr>totalFrame := totalFrame s + 1\<rparr>
      in s)"

subsection \<open>\<^verbatim>\<open>readShader\<close> and \<^verbatim>\<open>createShader\<close>\<close>

text \<open>The lines the two functions print on \<^verbatim>\<open>std::cout\<close>.\<close>

definition cannot_read_message :: "string \<Rightarrow> string" where
  "cannot_read_message fileName = ''Can't read file: '' @ fileName"

definition compile_failed_message :: string where
  "compile_failed_message = ''The shader failed to compile with the error:''"

definition readShader :: "environment \<Rightarrow> string \<Rightarrow> state \<Rightarrow> string \<times> state" where
  "readShader env fileName s =
     (case file_contents env fileName of
        None \<Rightarrow> ('''', s\<lparr>console := console s @ [cannot_read_message fileName]\<rparr>)
      | Some shaderCode \<Rightarrow> (shaderCode, s))"

text \<open>
  \<^verbatim>\<open>createShader\<close> returns the name of the shader in both branches: after a failed
  compilation it prints the info log, deletes the shader, and returns the deleted name.
\<close>

definition createShader :: "environment \<Rightarrow> string \<Rightarrow> shader_type \<Rightarrow> state \<Rightarrow> nat \<times> state" where
  "createShader env sourceCode shaderType s =
     (let (shader, s) = glCreateShader s;
          isCompiled = compile_status env shaderType sourceCode;
          s = glCompileShader shader isCompiled s
      in if \<not> isCompiled
         then (let infolog = info_log env shaderType sourceCode;
                   s = s\<lparr>console := console s @ [compile_failed_message, infolog]\<rparr>;
                   s = glDeleteShader shader s
               in (shader, s))
         else (shader, s))"

subsection \<open>\<^verbatim>\<open>init\<close>\<close>

text \<open>
  \<open>init_with meshes\<close> is the body of \<^verbatim>\<open>init\<close> with the contents of its local array
  \<^verbatim>\<open>meshes\<close> as a parameter; \<^verbatim>\<open>init\<close> itself runs it on the array its assignments
  build. \<^verbatim>\<open>glLinkProgram\<close> leaves no trace in the state: the program never asks for the
  link status. The last \<^verbatim>\<open>glBufferData\<close> is called with the buffer name \<^verbatim>\<open>lightToFrag\<close>
  as its size argument, as the source has it. The three constants before it are the
  paths of the shader files.
\<close>

definition VertexShader_glsl :: string where
  "VertexShader_glsl = ''../Assets/VertexShader.glsl''"

definition FragmentShader_glsl :: string where
  "FragmentShader_glsl = ''../Assets/FragmentShader.glsl''"

definition Compute_glsl :: string where
  "Compute_glsl = ''../Assets/Compute.glsl''"

definition init_with :: "Mesh list \<Rightarrow> environment \<Rightarrow> state \<Rightarrow> state" where
  "init_with meshes env s =
     (let (vertShader, s) = readShader env VertexShader_glsl s;
          (fragShader, s) = readShader env FragmentShader_glsl s;
          (compShader, s) = readShader env Compute_glsl s;
          (shader, s) = createShader env vertShader GL_VERTEX_SHADER s;
          s = s\<lparr>vertex_shader := shader\<rparr>;
          (shader, s) = createShader env fragShader GL_FRAGMENT_SHADER s;
          s = s\<lparr>fragment_shader := shader\<rparr>;
          (shader, s) = createShader env compShader GL_COMPUTE_SHADER s;
          s = s\<lparr>compute_shader := shader\<rparr>;
          (program, s) = glCreateProgram s;
          s = s\<lparr>draw_program := program\<rparr>;
          s = glAttachShader (draw_program s) (vertex_shader s) s;
          s = glAttachShader (draw_program s) (fragment_shader s) s;
          s = glUseProgram (draw_program s) s;
          (program, s) = glCreateProgram s;
          s = s\<lparr>transform_program := program\<rparr>;
          s = glAttachShader (transform_program s) (compute_shader s) s;
          (buffer, s) = glGenBuffers s;
          s = s\<lparr>compToFrag := buffer\<rparr>;
          s = glBindBuffer (compToFrag s) s;
          s = glBufferData compToFragSize NullData s;
          s = glBindBuffer 0 s;
          (buffer, s) = glGenBuffers s;
          s = s\<lparr>matrixBuffer := buffer\<rparr>;
          s = glBindBuffer (matrixBuffer s) s;
          s = glBufferData matrixBufferSize NullData s;
          s = glBindBuffer 0 s;
          (buffer, s) = glGenBuffers s;
          s = s\<lparr>triangleBuffer := buffer\<rparr>;
          s = glBindBuffer (triangleBuffer s) s;
          s = glBufferData triangleBufferSize (MeshData meshes) s;
          s = glBindBuffer 0 s;
          (buffer, s) = glGenBuffers s;
          s = s\<lparr>lightToFrag := buffer\<rparr>;
          s = glBindBuffer (lightToFrag s) s;
          s = glBufferData (int (lightToFrag s)) NullData s;
          s = glBindBuffer 0 s
      in s)"

definition init :: "environment \<Rightarrow> state \<Rightarrow> state" where
  "init env s = init_with scene_meshes env s"

subsection \<open>\<^verbatim>\<open>window_size_callback\<close>\<close>

definition window_size_callback :: "int \<Rightarrow> int \<Rightarrow> state \<Rightarrow> state" where
  "window_size_callback w h s =
     (let s = s\<lparr>width := w\<rparr>;
          s = s\<lparr>height := h\<rparr>
      in glViewport 0 0 (width s) (height s) s)"

text \<open>\<^verbatim>\<open>glfwPollEvents\<close> calls the callback once for each pending size event, in order.\<close>

definition glfwPollEvents :: "(int \<times> int) list \<Rightarrow> state \<Rightarrow> state" where
  "glfwPollEvents events s = fold (\<lambda>(w, h). window_size_callback w h) events s"

subsection \<open>\<^verbatim>\<open>main\<close>\<close>

text \<open>
  The global variables as their initialisers leave them; the OpenGL context is fresh,
  nothing has been printed or written.
\<close>

definition initial_state :: state where
  "initial_state =
     \<lparr>compToFrag = 0, lightToFrag = 0, matrixBuffer = 0, triangleBuffer = 0,
      draw_program = 0, transform_program = 0,
      vertex_shader = 0, fragment_shader = 0, compute_shader = 0,
      cameraPos = Vec3 0 0 0,
      tempFrame = 0, totalFrame = 0,
      dtime = 0, timebase = 0, totalTime = 0,
      fps = 0,
      width = 1280, height = 720,
      videoFPS = 60, videoSeconds = 10, maxFrames = 60 * 10,
      gl_buffers = Map.empty, gl_next_buffer = 1,
      gl_uniform_buffer_binding = 0, gl_storage_binding = (\<lambda>_. 0),
      gl_shaders = Map.empty, gl_attached = (\<lambda>_. []), gl_next_object = 1,
      gl_current_program = 0, gl_uniforms = None,
      gl_viewport = (0, 0, 1280, 720),
      gl_dispatches = [], gl_draws = 0,
      window_title = '''', console = [],
      pixels_size = 0, readbacks = [], exportedFrames = [], commands = []\<rparr>"

text \<open>
  \<^verbatim>\<open>main\<close> up to its loop: \<^verbatim>\<open>init()\<close>, then the array \<^verbatim>\<open>pixels\<close> of
  \<^verbatim>\<open>3 * width * height\<close> bytes is allocated.
\<close>

definition main_setup :: "environment \<Rightarrow> state" where
  "main_setup env =
     (let s = init env initial_state;
          s = s\<lparr>pixels_size := 3 * width s * height s\<rparr>
      in s)"

text \<open>
  The body of the \<^verbatim>\<open>while\<close> loop, in iteration \<open>k\<close>. \<^verbatim>\<open>glfwSwapBuffers\<close> changes nothing
  that the state records. The file name is \<^verbatim>\<open>sprintf(fileName, "exportedFrames/%d.png",
  totalFrame)\<close>, with \<^verbatim>\<open>totalFrame\<close> as \<^verbatim>\<open>renderScene\<close> has left it.
\<close>

definition frame_file_name :: "int \<Rightarrow> string" where
  "frame_file_name frame = ''exportedFrames/'' @ to_string frame @ ''.png''"

definition loop_body :: "environment \<Rightarrow> nat \<Rightarrow> state \<Rightarrow> state" where
  "loop_body env k s =
     (let s = renderScene (clock env k) s;
          s = glfwPollEvents (window_events env k) s;
          s = glReadPixels (width s) (height s) s;
          fileName = frame_file_name (totalFrame s);
          s = FreeImage_Save fileName (width s) (height s) s
      in s)"

text \<open>
  \<^verbatim>\<open>while (totalFrame != maxFrames)\<close>: a loop that need not end (it does not when
  \<^verbatim>\<open>totalFrame\<close> starts above \<^verbatim>\<open>maxFrames\<close>), so not returning is the value \<open>None\<close>.
\<close>

partial_function (option) main_loop :: "environment \<Rightarrow> nat \<Rightarrow> state \<Rightarrow> state option" where
  "main_loop env k s =
     (if totalFrame s \<noteq> maxFrames s then main_loop env (Suc k) (loop_body env k s)
      else Some s)"

text \<open>
  After the loop: the shaders and the draw program are deleted, \<^verbatim>\<open>pixels\<close> is freed,
  and the command that builds the video is given to \<^verbatim>\<open>system\<close>.
\<close>

definition ffmpeg_command :: "int \<Rightarrow> string" where
  "ffmpeg_command rate =
     ''ffmpeg -r '' @ to_string rate @
     '' -start_number 1 -i exportedFrames/%d.png -q 0 test.avi''"

definition main_finish :: "state \<Rightarrow> state" where
  "main_finish s =
     (let s = glDeleteShader (vertex_shader s) s;
          s = glDeleteShader (fragment_shader s) s;
          s = glDeleteProgram (draw_program s) s;
          s = s\<lparr>pixels_size := 0\<rparr>;
          command = ffmpeg_command (videoFPS s);
          s = s\<lparr>commands := commands s @ [command]\<rparr>
      in s)"

definition main :: "environment \<Rightarrow> state option" where
  "main env =
     (case main_loop env 0 (main_setup env) of
        None \<Rightarrow> None
      | Some s \<Rightarrow> Some (main_finish s))"

text \<open>The state after \<open>n\<close> further iterations of the loop body, from iteration \<open>k\<close> on.\<close>

primrec iterations :: "nat \<Rightarrow> environment \<Rightarrow> nat \<Rightarrow> state \<Rightarrow> state" where
  "iterations 0 env k s = s"
| "iterations (Suc n) env k s = iterations n env (Suc k) (loop_body env k s)"

section \<open>Sample environments\<close>

text \<open>
  Environments at which the theorems below are evaluated. In the first nothing happens
  to the window, every shader file is there and compiles, and the clock advances by a
  sixtieth of a second per frame.
\<close>

definition idle_environment :: environment where
  "idle_environment =
     \<lparr>clock = (\<lambda>k. real k / 60),
      window_events = (\<lambda>k. []),
      file_contents = (\<lambda>fileName. Some []),
      compile_status = (\<lambda>shaderType sourceCode. True),
      info_log = (\<lambda>shaderType sourceCode. [])\<rparr>"

text \<open>
  In the second the window is resized to 1920 by 1080 while the first frame is being
  made. In the third the fragment shader does not compile, and the compiler's info log
  is \<open>shader_error_text\<close>. In the fourth every frame takes two seconds of program time.
\<close>

definition resize_environment :: environment where
  "resize_environment =
     idle_environment\<lparr>window_events := (\<lambda>k. if k = 0 then [(1920, 1080)] else [])\<rparr>"

definition shader_error_text :: string where
  "shader_error_text = ''ERROR: 0:1: syntax error''"

definition failing_environment :: environment where
  "failing_environment =
     idle_environment\<lparr>compile_status := (\<lambda>shaderType sourceCode. shaderType \<noteq> GL_FRAGMENT_SHADER),
                       info_log := (\<lambda>shaderType sourceCode. shader_error_text)\<rparr>"

definition slow_environment :: environment where
  "slow_environment = idle_environment\<lparr>clock := (\<lambda>k. 2 * real k)\<rparr>"


section \<open>Views of the state\<close>

text \<open>
  The content the backend renders a frame from: what the matrix buffer and the light
  buffer hold, and the camera uniforms.
\<close>

definition frame_content ::
  "state \<Rightarrow> buffer_object option \<times> buffer_object option \<times> camera_uniforms option" where
  "frame_content s = (gl_buffers s (matrixBuffer s), gl_buffers s (lightToFrag s), gl_uniforms s)"

text \<open>
  The state with the variables of the frames-per-second display (the two clock readings,
  the time base, the rate, the frame count since the last display, the window title)
  blanked.
\<close>

definition without_diagnostics :: "state \<Rightarrow> state" where
  "without_diagnostics s =
     s\<lparr>dtime := 0, totalTime := 0, timebase := 0, fps := 0, tempFrame := 0,
       window_title := []\<rparr>"

section \<open>The corner rays as the specification describes them\<close>

text \<open>
  The definitions of this section are written from the specification's words, to be
  compared with \<^verbatim>\<open>calcCameraRays\<close>. The first is the rotation of a vector \<open>x\<close> about an
  axis by an angle in radians, counter-clockwise when seen from the tip of the axis
  (Rodrigues' formula, the axis normalised first).
\<close>

definition rotate_about :: "vec3 \<Rightarrow> real \<Rightarrow> vec3 \<Rightarrow> vec3" where
  "rotate_about axis angle x =
     (let k = normalize axis
      in vec3_add (vec3_add (vec3_smul (cos angle) x) (vec3_smul (sin angle) (cross k x)))
                  (vec3_smul ((1 - cos angle) * dot3 k x) k))"








section \<open>Properties of the animation\<close>

lemma normalize_y_axis: "normalize (Vec3 0 1 0) = Vec3 0 1 0"
  by (simp add: normalize_def vec3_smul_def dot3_def)

lemma test_matrices_eq:
  "test_matrices t =
     [Mat4 (Vec4 ((sin t + 6) / 3) 0 0 0) (Vec4 0 ((sin t + 6) / 3) 0 0)
           (Vec4 0 0 ((sin t + 6) / 3) 0) (Vec4 0 0 0 1),
      Mat4 (Vec4 (cos t * ((1 + sin t) / 2)) 0 (sin t * ((1 + sin t) / 2)) 0)
           (Vec4 0 ((1 + sin t) / 2) 0 0)
           (Vec4 (- sin t * ((1 + sin t) / 2)) 0 (cos t * ((1 + sin t) / 2)) 0)
           (Vec4 (2 * cos t) 1.5 (2 * sin t) 1)]"
  by (simp add: test_matrices_def Let_def glm_scale_def glm_translate_def glm_rotate_def
      normalize_y_axis mat4_identity_def vec3_splat_def vec3_smul_def vec3_div_def
      vec4_smul_def vec4_add_def)

lemma length_test_matrices: "length (test_matrices t) = 2"
  by (simp add: test_matrices_eq)

lemma floor_on_point:
  "apply_transform (test_matrices t ! 0) p = vec4_of (scale_point ((sin t + 6) / 3) p) 1"
  by (simp add: test_matrices_eq apply_transform_def mat4_mul_vec4_def vec4_of_def
      scale_point_def vec4_add_def vec4_smul_def mult.commute)

lemma cube_on_point:
  "apply_transform (test_matrices t ! 1) p =
     vec4_of (translate_point (Vec3 (2 * cos t) 1.5 (2 * sin t))
               (rotate_y_point (- t) (scale_point ((1 + sin t) / 2) p))) 1"
  by (simp add: test_matrices_eq apply_transform_def mat4_mul_vec4_def vec4_of_def
      scale_point_def rotate_y_point_def translate_point_def vec3_add_def vec4_add_def
      vec4_smul_def algebra_simps)

text \<open>
  Claim C2. For every video time \<open>t\<close> (any real, zero and negative included) the frame's
  animation is: the floor transform is the identity scaled uniformly by
  \<open>(sin t + 6) / 3\<close>; the cube transform takes a point by uniform scaling with
  \<open>(1 + sin t) / 2\<close> first, then the rotation by \<open>- t\<close> radians about the vertical axis,
  then the translation by \<open>(2 cos t, 1.5, 2 sin t)\<close>; light 0 is white with radius 7,
  brightness 1 and position \<open>(2 sin t, 4, 2 cos t)\<close>; light 1 is red with radius 2,
  brightness 2 and position \<open>(4 cos t, 1, 4)\<close>. At \<open>t = 0\<close> the floor scale is 2, the
  cube transform is the scaling by 0.5 followed by the translation to \<open>(2, 1.5, 0)\<close>
  with no rotation (the rotation by the angle 0 is the identity), and the lights stand
  at \<open>(0, 4, 2)\<close> and \<open>(4, 1, 4)\<close>.
\<close>

theorem scene_animation:
  "length (test_matrices t) = 2 \<and>
   test_matrices t ! 0 =
     Mat4 (Vec4 ((sin t + 6) / 3) 0 0 0) (Vec4 0 ((sin t + 6) / 3) 0 0)
          (Vec4 0 0 ((sin t + 6) / 3) 0) (Vec4 0 0 0 1) \<and>
   apply_transform (test_matrices t ! 0) p = vec4_of (scale_point ((sin t + 6) / 3) p) 1 \<and>
   apply_transform (test_matrices t ! 1) p =
     vec4_of (translate_point (Vec3 (2 * cos t) 1.5 (2 * sin t))
               (rotate_y_point (- t) (scale_point ((1 + sin t) / 2) p))) 1 \<and>
   lights_array t =
     [\<lparr>light_pos = Vec4 (2 * sin t) 4 (2 * cos t) 0, light_color = Vec4 1 1 1 0,
       light_radius = 7, light_brightness = 1\<rparr>,
      \<lparr>light_pos = Vec4 (4 * cos t) 1 4 0, light_color = Vec4 1 0 0 0,
       light_radius = 2, light_brightness = 2\<rparr>] \<and>
   test_matrices 0 ! 0 = Mat4 (Vec4 2 0 0 0) (Vec4 0 2 0 0) (Vec4 0 0 2 0) (Vec4 0 0 0 1) \<and>
   test_matrices 0 ! 1 =
     Mat4 (Vec4 0.5 0 0 0) (Vec4 0 0.5 0 0) (Vec4 0 0 0.5 0) (Vec4 2 1.5 0 1) \<and>
   rotate_y_point (- 0) p = p \<and>
   map light_pos (lights_array 0) = [Vec4 0 4 2 0, Vec4 4 1 4 0]"
proof -
  have "test_matrices 0 ! 0 = Mat4 (Vec4 2 0 0 0) (Vec4 0 2 0 0) (Vec4 0 0 2 0) (Vec4 0 0 0 1)"
    by (simp add: test_matrices_eq)
  moreover have "test_matrices 0 ! 1 =
     Mat4 (Vec4 0.5 0 0 0) (Vec4 0 0.5 0 0) (Vec4 0 0 0.5 0) (Vec4 2 1.5 0 1)"
    by (simp add: test_matrices_eq)
  moreover have "rotate_y_point (- 0) p = p"
    by (simp add: rotate_y_point_def)
  moreover have "map light_pos (lights_array 0) = [Vec4 0 4 2 0, Vec4 4 1 4 0]"
    by (simp add: lights_array_def)
  moreover have "lights_array t =
     [\<lparr>light_pos = Vec4 (2 * sin t) 4 (2 * cos t) 0, light_color = Vec4 1 1 1 0,
       light_radius = 7, light_brightness = 1\<rparr>,
      \<lparr>light_pos = Vec4 (4 * cos t) 1 4 0, light_color = Vec4 1 0 0 0,
       light_radius = 2, light_brightness = 2\<rparr>]"
    by (simp add: lights_array_def)
  ultimately show ?thesis
    using length_test_matrices floor_on_point cube_on_point by (simp add: test_matrices_eq)
qed

section \<open>What each call does to each field of the state\<close>

text \<open>
  The functions of the program are chains of calls on the state. For every call the
  lemmas below say what it returns and what each field of the state is afterwards;
  with them a field of the final state is computed through a chain without unfolding
  the states in between.
\<close>

lemma glGenBuffers_fields:
  "fst (glGenBuffers s) = gl_next_buffer s"
  "compToFrag (snd (glGenBuffers s)) = compToFrag s"
  "lightToFrag (snd (glGenBuffers s)) = lightToFrag s"
  "matrixBuffer (snd (glGenBuffers s)) = matrixBuffer s"
  "triangleBuffer (snd (glGenBuffers s)) = triangleBuffer s"
  "draw_program (snd (glGenBuffers s)) = draw_program s"
  "transform_program (snd (glGenBuffers s)) = transform_program s"
  "vertex_shader (snd (glGenBuffers s)) = vertex_shader s"
  "fragment_shader (snd (glGenBuffers s)) = fragment_shader s"
  "compute_shader (snd (glGenBuffers s)) = compute_shader s"
  "cameraPos (snd (glGenBuffers s)) = cameraPos s"
  "tempFrame (snd (glGenBuffers s)) = tempFrame s"
  "totalFrame (snd (glGenBuffers s)) = totalFrame s"
  "dtime (snd (glGenBuffers s)) = dtime s"
  "timebase (snd (glGenBuffers s)) = timebase s"
  "totalTime (snd (glGenBuffers s)) = totalTime s"
  "fps (snd (glGenBuffers s)) = fps s"
  "width (snd (glGenBuffers s)) = width s"
  "height (snd (glGenBuffers s)) = height s"
  "videoFPS (snd (glGenBuffers s)) = videoFPS s"
  "videoSeconds (snd (glGenBuffers s)) = videoSeconds s"
  "maxFrames (snd (glGenBuffers s)) = maxFrames s"
  "gl_buffers (snd (glGenBuffers s)) = gl_buffers s"
  "gl_next_buffer (snd (glGenBuffers s)) = Suc (gl_next_buffer s)"
  "gl_uniform_buffer_binding (snd (glGenBuffers s)) = gl_uniform_buffer_binding s"
  "gl_storage_binding (snd (glGenBuffers s)) = gl_storage_binding s"
  "gl_shaders (snd (glGenBuffers s)) = gl_shaders s"
  "gl_attached (snd (glGenBuffers s)) = gl_attached s"
  "gl_next_object (snd (glGenBuffers s)) = gl_next_object s"
  "gl_current_program (snd (glGenBuffers s)) = gl_current_program s"
  "gl_uniforms (snd (glGenBuffers s)) = gl_uniforms s"
  "gl_viewport (snd (glGenBuffers s)) = gl_viewport s"
  "gl_dispatches (snd (glGenBuffers s)) = gl_dispatches s"
  "gl_draws (snd (glGenBuffers s)) = gl_draws s"
  "window_title (snd (glGenBuffers s)) = window_title s"
  "console (snd (glGenBuffers s)) = console s"
  "pixels_size (snd (glGenBuffers s)) = pixels_size s"
  "readbacks (snd (glGenBuffers s)) = readbacks s"
  "exportedFrames (snd (glGenBuffers s)) = exportedFrames s"
  "commands (snd (glGenBuffers s)) = commands s"
  by (simp_all add: glGenBuffers_def)

lemma glBindBuffer_fields:
  "compToFrag (glBindBuffer buffer s) = compToFrag s"
  "lightToFrag (glBindBuffer buffer s) = lightToFrag s"
  "matrixBuffer (glBindBuffer buffer s) = matrixBuffer s"
  "triangleBuffer (glBindBuffer buffer s) = triangleBuffer s"
  "draw_program (glBindBuffer buffer s) = draw_program s"
  "transform_program (glBindBuffer buffer s) = transform_program s"
  "vertex_shader (glBindBuffer buffer s) = vertex_shader s"
  "fragment_shader (glBindBuffer buffer s) = fragment_shader s"
  "compute_shader (glBindBuffer buffer s) = compute_shader s"
  "cameraPos (glBindBuffer buffer s) = cameraPos s"
  "tempFrame (glBindBuffer buffer s) = tempFrame s"
  "totalFrame (glBindBuffer buffer s) = totalFrame s"
  "dtime (glBindBuffer buffer s) = dtime s"
  "timebase (glBindBuffer buffer s) = timebase s"
  "totalTime (glBindBuffer buffer s) = totalTime s"
  "fps (glBindBuffer buffer s) = fps s"
  "width (glBindBuffer buffer s) = width s"
  "height (glBindBuffer buffer s) = height s"
  "videoFPS (glBindBuffer buffer s) = videoFPS s"
  "videoSeconds (glBindBuffer buffer s) = videoSeconds s"
  "maxFrames (glBindBuffer buffer s) = maxFrames s"
  "gl_buffers (glBindBuffer buffer s) = gl_buffers s"
  "gl_next_buffer (glBindBuffer buffer s) = gl_next_buffer s"
  "gl_uniform_buffer_binding (glBindBuffer buffer s) = buffer"
  "gl_storage_binding (glBindBuffer buffer s) = gl_storage_binding s"
  "gl_shaders (glBindBuffer buffer s) = gl_shaders s"
  "gl_attached (glBindBuffer buffer s) = gl_attached s"
  "gl_next_object (glBindBuffer buffer s) = gl_next_object s"
  "gl_current_program (glBindBuffer buffer s) = gl_current_program s"
  "gl_uniforms (glBindBuffer buffer s) = gl_uniforms s"
  "gl_viewport (glBindBuffer buffer s) = gl_viewport s"
  "gl_dispatches (glBindBuffer buffer s) = gl_dispatches s"
  "gl_draws (glBindBuffer buffer s) = gl_draws s"
  "window_title (glBindBuffer buffer s) = window_title s"
  "console (glBindBuffer buffer s) = console s"
  "pixels_size (glBindBuffer buffer s) = pixels_size s"
  "readbacks (glBindBuffer buffer s) = readbacks s"
  "exportedFrames (glBindBuffer buffer s) = exportedFrames s"
  "commands (glBindBuffer buffer s) = commands s"
  by (simp_all add: glBindBuffer_def)

lemma glBufferData_fields:
  "compToFrag (glBufferData nbytes dat s) = compToFrag s"
  "lightToFrag (glBufferData nbytes dat s) = lightToFrag s"
  "matrixBuffer (glBufferData nbytes dat s) = matrixBuffer s"
  "triangleBuffer (glBufferData nbytes dat s) = triangleBuffer s"
  "draw_program (glBufferData nbytes dat s) = draw_program s"
  "transform_program (glBufferData nbytes dat s) = transform_program s"
  "vertex_shader (glBufferData nbytes dat s) = vertex_shader s"
  "fragment_shader (glBufferData nbytes dat s) = fragment_shader s"
  "compute_shader (glBufferData nbytes dat s) = compute_shader s"
  "cameraPos (glBufferData nbytes dat s) = cameraPos s"
  "tempFrame (glBufferData nbytes dat s) = tempFrame s"
  "totalFrame (glBufferData nbytes dat s) = totalFrame s"
  "dtime (glBufferData nbytes dat s) = dtime s"
  "timebase (glBufferData nbytes dat s) = timebase s"
  "totalTime (glBufferData nbytes dat s) = totalTime s"
  "fps (glBufferData nbytes dat s) = fps s"
  "width (glBufferData nbytes dat s) = width s"
  "height (glBufferData nbytes dat s) = height s"
  "videoFPS (glBufferData nbytes dat s) = videoFPS s"
  "videoSeconds (glBufferData nbytes dat s) = videoSeconds s"
  "maxFrames (glBufferData nbytes dat s) = maxFrames s"
  "gl_buffers (glBufferData nbytes dat s) =
     (if gl_uniform_buffer_binding s = 0 \<or> nbytes < 0 then gl_buffers s
      else (gl_buffers s)(gl_uniform_buffer_binding s \<mapsto>
             \<lparr>buf_size = nbytes, buf_data = dat\<rparr>))"
  "gl_next_buffer (glBufferData nbytes dat s) = gl_next_buffer s"
  "gl_uniform_buffer_binding (glBufferData nbytes dat s) = gl_uniform_buffer_binding s"
  "gl_storage_binding (glBufferData nbytes dat s) = gl_storage_binding s"
  "gl_shaders (glBufferData nbytes dat s) = gl_shaders s"
  "gl_attached (glBufferData nbytes dat s) = gl_attached s"
  "gl_next_object (glBufferData nbytes dat s) = gl_next_object s"
  "gl_current_program (glBufferData nbytes dat s) = gl_current_program s"
  "gl_uniforms (glBufferData nbytes dat s) = gl_uniforms s"
  "gl_viewport (glBufferData nbytes dat s) = gl_viewport s"
  "gl_dispatches (glBufferData nbytes dat s) = gl_dispatches s"
  "gl_draws (glBufferData nbytes dat s) = gl_draws s"
  "window_title (glBufferData nbytes dat s) = window_title s"
  "console (glBufferData nbytes dat s) = console s"
  "pixels_size (glBufferData nbytes dat s) = pixels_size s"
  "readbacks (glBufferData nbytes dat s) = readbacks s"
  "exportedFrames (glBufferData nbytes dat s) = exportedFrames s"
  "commands (glBufferData nbytes dat s) = commands s"
  by (simp_all add: glBufferData_def)

lemma glBindBufferBase_fields:
  "compToFrag (glBindBufferBase i buffer s) = compToFrag s"
  "lightToFrag (glBindBufferBase i buffer s) = lightToFrag s"
  "matrixBuffer (glBindBufferBase i buffer s) = matrixBuffer s"
  "triangleBuffer (glBindBufferBase i buffer s) = triangleBuffer s"
  "draw_program (glBindBufferBase i buffer s) = draw_program s"
  "transform_program (glBindBufferBase i buffer s) = transform_program s"
  "vertex_shader (glBindBufferBase i buffer s) = vertex_shader s"
  "fragment_shader (glBindBufferBase i buffer s) = fragment_shader s"
  "compute_shader (glBindBufferBase i buffer s) = compute_shader s"
  "cameraPos (glBindBufferBase i buffer s) = cameraPos s"
  "tempFrame (glBindBufferBase i buffer s) = tempFrame s"
  "totalFrame (glBindBufferBase i buffer s) = totalFrame s"
  "dtime (glBindBufferBase i buffer s) = dtime s"
  "timebase (glBindBufferBase i buffer s) = timebase s"
  "totalTime (glBindBufferBase i buffer s) = totalTime s"
  "fps (glBindBufferBase i buffer s) = fps s"
  "width (glBindBufferBase i buffer s) = width s"
  "height (glBindBufferBase i buffer s) = height s"
  "videoFPS (glBindBufferBase i buffer s) = videoFPS s"
  "videoSeconds (glBindBufferBase i buffer s) = videoSeconds s"
  "maxFrames (glBindBufferBase i buffer s) = maxFrames s"
  "gl_buffers (glBindBufferBase i buffer s) = gl_buffers s"
  "gl_next_buffer (glBindBufferBase i buffer s) = gl_next_buffer s"
  "gl_uniform_buffer_binding (glBindBufferBase i buffer s) = gl_uniform_buffer_binding s"
  "gl_storage_binding (glBindBufferBase i buffer s) = (gl_storage_binding s)(i := buffer)"
  "gl_shaders (glBindBufferBase i buffer s) = gl_shaders s"
  "gl_attached (glBindBufferBase i buffer s) = gl_attached s"
  "gl_next_object (glBindBufferBase i buffer s) = gl_next_object s"
  "gl_current_program (glBindBufferBase i buffer s) = gl_current_program s"
  "gl_uniforms (glBindBufferBase i buffer s) = gl_uniforms s"
  "gl_viewport (glBindBufferBase i buffer s) = gl_viewport s"
  "gl_dispatches (glBindBufferBase i buffer s) = gl_dispatches s"
  "gl_draws (glBindBufferBase i buffer s) = gl_draws s"
  "window_title (glBindBufferBase i buffer s) = window_title s"
  "console (glBindBufferBase i buffer s) = console s"
  "pixels_size (glBindBufferBase i buffer s) = pixels_size s"
  "readbacks (glBindBufferBase i buffer s) = readbacks s"
  "exportedFrames (glBindBufferBase i buffer s) = exportedFrames s"
  "commands (glBindBufferBase i buffer s) = commands s"
  by (simp_all add: glBindBufferBase_def)

lemma glUseProgram_fields:
  "compToFrag (glUseProgram program s) = compToFrag s"
  "lightToFrag (glUseProgram program s) = lightToFrag s"
  "matrixBuffer (glUseProgram program s) = matrixBuffer s"
  "triangleBuffer (glUseProgram program s) = triangleBuffer s"
  "draw_program (glUseProgram program s) = draw_program s"
  "transform_program (glUseProgram program s) = transform_program s"
  "vertex_shader (glUseProgram program s) = vertex_shader s"
  "fragment_shader (glUseProgram program s) = fragment_shader s"
  "compute_shader (glUseProgram program s) = compute_shader s"
  "cameraPos (glUseProgram program s) = cameraPos s"
  "tempFrame (glUseProgram program s) = tempFrame s"
  "totalFrame (glUseProgram program s) = totalFrame s"
  "dtime (glUseProgram program s) = dtime s"
  "timebase (glUseProgram program s) = timebase s"
  "totalTime (glUseProgram program s) = totalTime s"
  "fps (glUseProgram program s) = fps s"
  "width (glUseProgram program s) = width s"
  "height (glUseProgram program s) = height s"
  "videoFPS (glUseProgram program s) = videoFPS s"
  "videoSeconds (glUseProgram program s) = videoSeconds s"
  "maxFrames (glUseProgram program s) = maxFrames s"
  "gl_buffers (glUseProgram program s) = gl_buffers s"
  "gl_next_buffer (glUseProgram program s) = gl_next_buffer s"
  "gl_uniform_buffer_binding (glUseProgram program s) = gl_uniform_buffer_binding s"
  "gl_storage_binding (glUseProgram program s) = gl_storage_binding s"
  "gl_shaders (glUseProgram program s) = gl_shaders s"
  "gl_attached (glUseProgram program s) = gl_attached s"
  "gl_next_object (glUseProgram program s) = gl_next_object s"
  "gl_current_program (glUseProgram program s) = program"
  "gl_uniforms (glUseProgram program s) = gl_uniforms s"
  "gl_viewport (glUseProgram program s) = gl_viewport s"
  "gl_dispatches (glUseProgram program s) = gl_dispatches s"
  "gl_draws (glUseProgram program s) = gl_draws s"
  "window_title (glUseProgram program s) = window_title s"
  "console (glUseProgram program s) = console s"
  "pixels_size (glUseProgram program s) = pixels_size s"
  "readbacks (glUseProgram program s) = readbacks s"
  "exportedFrames (glUseProgram program s) = exportedFrames s"
  "commands (glUseProgram program s) = commands s"
  by (simp_all add: glUseProgram_def)

lemma glDispatchCompute_fields:
  "compToFrag (glDispatchCompute x y z s) = compToFrag s"
  "lightToFrag (glDispatchCompute x y z s) = lightToFrag s"
  "matrixBuffer (glDispatchCompute x y z s) = matrixBuffer s"
  "triangleBuffer (glDispatchCompute x y z s) = triangleBuffer s"
  "draw_program (glDispatchCompute x y z s) = draw_program s"
  "transform_program (glDispatchCompute x y z s) = transform_program s"
  "vertex_shader (glDispatchCompute x y z s) = vertex_shader s"
  "fragment_shader (glDispatchCompute x y z s) = fragment_shader s"
  "compute_shader (glDispatchCompute x y z s) = compute_shader s"
  "cameraPos (glDispatchCompute x y z s) = cameraPos s"
  "tempFrame (glDispatchCompute x y z s) = tempFrame s"
  "totalFrame (glDispatchCompute x y z s) = totalFrame s"
  "dtime (glDispatchCompute x y z s) = dtime s"
  "timebase (glDispatchCompute x y z s) = timebase s"
  "totalTime (glDispatchCompute x y z s) = totalTime s"
  "fps (glDispatchCompute x y z s) = fps s"
  "width (glDispatchCompute x y z s) = width s"
  "height (glDispatchCompute x y z s) = height s"
  "videoFPS (glDispatchCompute x y z s) = videoFPS s"
  "videoSeconds (glDispatchCompute x y z s) = videoSeconds s"
  "maxFrames (glDispatchCompute x y z s) = maxFrames s"
  "gl_buffers (glDispatchCompute x y z s) = gl_buffers s"
  "gl_next_buffer (glDispatchCompute x y z s) = gl_next_buffer s"
  "gl_uniform_buffer_binding (glDispatchCompute x y z s) = gl_uniform_buffer_binding s"
  "gl_storage_binding (glDispatchCompute x y z s) = gl_storage_binding s"
  "gl_shaders (glDispatchCompute x y z s) = gl_shaders s"
  "gl_attached (glDispatchCompute x y z s) = gl_attached s"
  "gl_next_object (glDispatchCompute x y z s) = gl_next_object s"
  "gl_current_program (glDispatchCompute x y z s) = gl_current_program s"
  "gl_uniforms (glDispatchCompute x y z s) = gl_uniforms s"
  "gl_viewport (glDispatchCompute x y z s) = gl_viewport s"
  "gl_dispatches (glDispatchCompute x y z s) = gl_dispatches s @ [(x, y, z)]"
  "gl_draws (glDispatchCompute x y z s) = gl_draws s"
  "window_title (glDispatchCompute x y z s) = window_title s"
  "console (glDispatchCompute x y z s) = console s"
  "pixels_size (glDispatchCompute x y z s) = pixels_size s"
  "readbacks (glDispatchCompute x y z s) = readbacks s"
  "exportedFrames (glDispatchCompute x y z s) = exportedFrames s"
  "commands (glDispatchCompute x y z s) = commands s"
  by (simp_all add: glDispatchCompute_def)

lemma glDrawArrays_fields:
  "compToFrag (glDrawArrays s) = compToFrag s"
  "lightToFrag (glDrawArrays s) = lightToFrag s"
  "matrixBuffer (glDrawArrays s) = matrixBuffer s"
  "triangleBuffer (glDrawArrays s) = triangleBuffer s"
  "draw_program (glDrawArrays s) = draw_program s"
  "transform_program (glDrawArrays s) = transform_program s"
  "vertex_shader (glDrawArrays s) = vertex_shader s"
  "fragment_shader (glDrawArrays s) = fragment_shader s"
  "compute_shader (glDrawArrays s) = compute_shader s"
  "cameraPos (glDrawArrays s) = cameraPos s"
  "tempFrame (glDrawArrays s) = tempFrame s"
  "totalFrame (glDrawArrays s) = totalFrame s"
  "dtime (glDrawArrays s) = dtime s"
  "timebase (glDrawArrays s) = timebase s"
  "totalTime (glDrawArrays s) = totalTime s"
  "fps (glDrawArrays s) = fps s"
  "width (glDrawArrays s) = width s"
  "height (glDrawArrays s) = height s"
  "videoFPS (glDrawArrays s) = videoFPS s"
  "videoSeconds (glDrawArrays s) = videoSeconds s"
  "maxFrames (glDrawArrays s) = maxFrames s"
  "gl_buffers (glDrawArrays s) = gl_buffers s"
  "gl_next_buffer (glDrawArrays s) = gl_next_buffer s"
  "gl_uniform_buffer_binding (glDrawArrays s) = gl_uniform_buffer_binding s"
  "gl_storage_binding (glDrawArrays s) = gl_storage_binding s"
  "gl_shaders (glDrawArrays s) = gl_shaders s"
  "gl_attached (glDrawArrays s) = gl_attached s"
  "gl_next_object (glDrawArrays s) = gl_next_object s"
  "gl_current_program (glDrawArrays s) = gl_current_program s"
  "gl_uniforms (glDrawArrays s) = gl_uniforms s"
  "gl_viewport (glDrawArrays s) = gl_viewport s"
  "gl_dispatches (glDrawArrays s) = gl_dispatches s"
  "gl_draws (glDrawArrays s) = Suc (gl_draws s)"
  "window_title (glDrawArrays s) = window_title s"
  "console (glDrawArrays s) = console s"
  "pixels_size (glDrawArrays s) = pixels_size s"
  "readbacks (glDrawArrays s) = readbacks s"
  "exportedFrames (glDrawArrays s) = exportedFrames s"
  "commands (glDrawArrays s) = commands s"
  by (simp_all add: glDrawArrays_def)

lemma glViewport_fields:
  "compToFrag (glViewport x y w h s) = compToFrag s"
  "lightToFrag (glViewport x y w h s) = lightToFrag s"
  "matrixBuffer (glViewport x y w h s) = matrixBuffer s"
  "triangleBuffer (glViewport x y w h s) = triangleBuffer s"
  "draw_program (glViewport x y w h s) = draw_program s"
  "transform_program (glViewport x y w h s) = transform_program s"
  "vertex_shader (glViewport x y w h s) = vertex_shader s"
  "fragment_shader (glViewport x y w h s) = fragment_shader s"
  "compute_shader (glViewport x y w h s) = compute_shader s"
  "cameraPos (glViewport x y w h s) = cameraPos s"
  "tempFrame (glViewport x y w h s) = tempFrame s"
  "totalFrame (glViewport x y w h s) = totalFrame s"
  "dtime (glViewport x y w h s) = dtime s"
  "timebase (glViewport x y w h s) = timebase s"
  "totalTime (glViewport x y w h s) = totalTime s"
  "fps (glViewport x y w h s) = fps s"
  "width (glViewport x y w h s) = width s"
  "height (glViewport x y w h s) = height s"
  "videoFPS (glViewport x y w h s) = videoFPS s"
  "videoSeconds (glViewport x y w h s) = videoSeconds s"
  "maxFrames (glViewport x y w h s) = maxFrames s"
  "gl_buffers (glViewport x y w h s) = gl_buffers s"
  "gl_next_buffer (glViewport x y w h s) = gl_next_buffer s"
  "gl_uniform_buffer_binding (glViewport x y w h s) = gl_uniform_buffer_binding s"
  "gl_storage_binding (glViewport x y w h s) = gl_storage_binding s"
  "gl_shaders (glViewport x y w h s) = gl_shaders s"
  "gl_attached (glViewport x y w h s) = gl_attached s"
  "gl_next_object (glViewport x y w h s) = gl_next_object s"
  "gl_current_program (glViewport x y w h s) = gl_current_program s"
  "gl_uniforms (glViewport x y w h s) = gl_uniforms s"
  "gl_viewport (glViewport x y w h s) = (x, y, w, h)"
  "gl_dispatches (glViewport x y w h s) = gl_dispatches s"
  "gl_draws (glViewport x y w h s) = gl_draws s"
  "window_title (glViewport x y w h s) = window_title s"
  "console (glViewport x y w h s) = console s"
  "pixels_size (glViewport x y w h s) = pixels_size s"
  "readbacks (glViewport x y w h s) = readbacks s"
  "exportedFrames (glViewport x y w h s) = exportedFrames s"
  "commands (glViewport x y w h s) = commands s"
  by (simp_all add: glViewport_def)

lemma glCreateProgram_fields:
  "fst (glCreateProgram s) = gl_next_object s"
  "compToFrag (snd (glCreateProgram s)) = compToFrag s"
  "lightToFrag (snd (glCreateProgram s)) = lightToFrag s"
  "matrixBuffer (snd (glCreateProgram s)) = matrixBuffer s"
  "triangleBuffer (snd (glCreateProgram s)) = triangleBuffer s"
  "draw_program (snd (glCreateProgram s)) = draw_program s"
  "transform_program (snd (glCreateProgram s)) = transform_program s"
  "vertex_shader (snd (glCreateProgram s)) = vertex_shader s"
  "fragment_shader (snd (glCreateProgram s)) = fragment_shader s"
  "compute_shader (snd (glCreateProgram s)) = compute_shader s"
  "cameraPos (snd (glCreateProgram s)) = cameraPos s"
  "tempFrame (snd (glCreateProgram s)) = tempFrame s"
  "totalFrame (snd (glCreateProgram s)) = totalFrame s"
  "dtime (snd (glCreateProgram s)) = dtime s"
  "timebase (snd (glCreateProgram s)) = timebase s"
  "totalTime (snd (glCreateProgram s)) = totalTime s"
  "fps (snd (glCreateProgram s)) = fps s"
  "width (snd (glCreateProgram s)) = width s"
  "height (snd (glCreateProgram s)) = height s"
  "videoFPS (snd (glCreateProgram s)) = videoFPS s"
  "videoSeconds (snd (glCreateProgram s)) = videoSeconds s"
  "maxFrames (snd (glCreateProgram s)) = maxFrames s"
  "gl_buffers (snd (glCreateProgram s)) = gl_buffers s"
  "gl_next_buffer (snd (glCreateProgram s)) = gl_next_buffer s"
  "gl_uniform_buffer_binding (snd (glCreateProgram s)) = gl_uniform_buffer_binding s"
  "gl_storage_binding (snd (glCreateProgram s)) = gl_storage_binding s"
  "gl_shaders (snd (glCreateProgram s)) = gl_shaders s"
  "gl_attached (snd (glCreateProgram s)) = gl_attached s"
  "gl_next_object (snd (glCreateProgram s)) = Suc (gl_next_object s)"
  "gl_current_program (snd (glCreateProgram s)) = gl_current_program s"
  "gl_uniforms (snd (glCreateProgram s)) = gl_uniforms s"
  "gl_viewport (snd (glCreateProgram s)) = gl_viewport s"
  "gl_dispatches (snd (glCreateProgram s)) = gl_dispatches s"
  "gl_draws (snd (glCreateProgram s)) = gl_draws s"
  "window_title (snd (glCreateProgram s)) = window_title s"
  "console (snd (glCreateProgram s)) = console s"
  "pixels_size (snd (glCreateProgram s)) = pixels_size s"
  "readbacks (snd (glCreateProgram s)) = readbacks s"
  "exportedFrames (snd (glCreateProgram s)) = exportedFrames s"
  "commands (snd (glCreateProgram s)) = commands s"
  by (simp_all add: glCreateProgram_def)

lemma glAttachShader_fields:
  "compToFrag (glAttachShader program shader s) = compToFrag s"
  "lightToFrag (glAttachShader program shader s) = lightToFrag s"
  "matrixBuffer (glAttachShader program shader s) = matrixBuffer s"
  "triangleBuffer (glAttachShader program shader s) = triangleBuffer s"
  "draw_program (glAttachShader program shader s) = draw_program s"
  "transform_program (glAttachShader program shader s) = transform_program s"
  "vertex_shader (glAttachShader program shader s) = vertex_shader s"
  "fragment_shader (glAttachShader program shader s) = fragment_shader s"
  "compute_shader (glAttachShader program shader s) = compute_shader s"
  "cameraPos (glAttachShader program shader s) = cameraPos s"
  "tempFrame (glAttachShader program shader s) = tempFrame s"
  "totalFrame (glAttachShader program shader s) = totalFrame s"
  "dtime (glAttachShader program shader s) = dtime s"
  "timebase (glAttachShader program shader s) = timebase s"
  "totalTime (glAttachShader program shader s) = totalTime s"
  "fps (glAttachShader program shader s) = fps s"
  "width (glAttachShader program shader s) = width s"
  "height (glAttachShader program shader s) = height s"
  "videoFPS (glAttachShader program shader s) = videoFPS s"
  "videoSeconds (glAttachShader program shader s) = videoSeconds s"
  "maxFrames (glAttachShader program shader s) = maxFrames s"
  "gl_buffers (glAttachShader program shader s) = gl_buffers s"
  "gl_next_buffer (glAttachShader program shader s) = gl_next_buffer s"
  "gl_uniform_buffer_binding (glAttachShader program shader s) = gl_uniform_buffer_binding s"
  "gl_storage_binding (glAttachShader program shader s) = gl_storage_binding s"
  "gl_shaders (glAttachShader program shader s) = gl_shaders s"
  "gl_attached (glAttachShader program shader s) =
     (gl_attached s)(program := gl_attached s program @
        (if gl_shaders s shader = None then [] else [shader]))"
  "gl_next_object (glAttachShader program shader s) = gl_next_object s"
  "gl_current_program (glAttachShader program shader s) = gl_current_program s"
  "gl_uniforms (glAttachShader program shader s) = gl_uniforms s"
  "gl_viewport (glAttachShader program shader s) = gl_viewport s"
  "gl_dispatches (glAttachShader program shader s) = gl_dispatches s"
  "gl_draws (glAttachShader program shader s) = gl_draws s"
  "window_title (glAttachShader program shader s) = window_title s"
  "console (glAttachShader program shader s) = console s"
  "pixels_size (glAttachShader program shader s) = pixels_size s"
  "readbacks (glAttachShader program shader s) = readbacks s"
  "exportedFrames (glAttachShader program shader s) = exportedFrames s"
  "commands (glAttachShader program shader s) = commands s"
  by (simp_all add: glAttachShader_def)

lemma glDeleteShader_fields:
  "compToFrag (glDeleteShader shader s) = compToFrag s"
  "lightToFrag (glDeleteShader shader s) = lightToFrag s"
  "matrixBuffer (glDeleteShader shader s) = matrixBuffer s"
  "triangleBuffer (glDeleteShader shader s) = triangleBuffer s"
  "draw_program (glDeleteShader shader s) = draw_program s"
  "transform_program (glDeleteShader shader s) = transform_program s"
  "vertex_shader (glDeleteShader shader s) = vertex_shader s"
  "fragment_shader (glDeleteShader shader s) = fragment_shader s"
  "compute_shader (glDeleteShader shader s) = compute_shader s"
  "cameraPos (glDeleteShader shader s) = cameraPos s"
  "tempFrame (glDeleteShader shader s) = tempFrame s"
  "totalFrame (glDeleteShader shader s) = totalFrame s"
  "dtime (glDeleteShader shader s) = dtime s"
  "timebase (glDeleteShader shader s) = timebase s"
  "totalTime (glDeleteShader shader s) = totalTime s"
  "fps (glDeleteShader shader s) = fps s"
  "width (glDeleteShader shader s) = width s"
  "height (glDeleteShader shader s) = height s"
  "videoFPS (glDeleteShader shader s) = videoFPS s"
  "videoSeconds (glDeleteShader shader s) = videoSeconds s"
  "maxFrames (glDeleteShader shader s) = maxFrames s"
  "gl_buffers (glDeleteShader shader s) = gl_buffers s"
  "gl_next_buffer (glDeleteShader shader s) = gl_next_buffer s"
  "gl_uniform_buffer_binding (glDeleteShader shader s) = gl_uniform_buffer_binding s"
  "gl_storage_binding (glDeleteShader shader s) = gl_storage_binding s"
  "gl_shaders (glDeleteShader shader s) = (gl_shaders s)(shader := None)"
  "gl_attached (glDeleteShader shader s) = gl_attached s"
  "gl_next_object (glDeleteShader shader s) = gl_next_object s"
  "gl_current_program (glDeleteShader shader s) = gl_current_program s"
  "gl_uniforms (glDeleteShader shader s) = gl_uniforms s"
  "gl_viewport (glDeleteShader shader s) = gl_viewport s"
  "gl_dispatches (glDeleteShader shader s) = gl_dispatches s"
  "gl_draws (glDeleteShader shader s) = gl_draws s"
  "window_title (glDeleteShader shader s) = window_title s"
  "console (glDeleteShader shader s) = console s"
  "pixels_size (glDeleteShader shader s) = pixels_size s"
  "readbacks (glDeleteShader shader s) = readbacks s"
  "exportedFrames (glDeleteShader shader s) = exportedFrames s"
  "commands (glDeleteShader shader s) = commands s"
  by (simp_all add: glDeleteShader_def)

lemma glDeleteProgram_fields:
  "compToFrag (glDeleteProgram program s) = compToFrag s"
  "lightToFrag (glDeleteProgram program s) = lightToFrag s"
  "matrixBuffer (glDeleteProgram program s) = matrixBuffer s"
  "triangleBuffer (glDeleteProgram program s) = triangleBuffer s"
  "draw_program (glDeleteProgram program s) = draw_program s"
  "transform_program (glDeleteProgram program s) = transform_program s"
  "vertex_shader (glDeleteProgram program s) = vertex_shader s"
  "fragment_shader (glDeleteProgram program s) = fragment_shader s"
  "compute_shader (glDeleteProgram program s) = compute_shader s"
  "cameraPos (glDeleteProgram program s) = cameraPos s"
  "tempFrame (glDeleteProgram program s) = tempFrame s"
  "totalFrame (glDeleteProgram program s) = totalFrame s"
  "dtime (glDeleteProgram program s) = dtime s"
  "timebase (glDeleteProgram program s) = timebase s"
  "totalTime (glDeleteProgram program s) = totalTime s"
  "fps (glDeleteProgram program s) = fps s"
  "width (glDeleteProgram program s) = width s"
  "height (glDeleteProgram program s) = height s"
  "videoFPS (glDeleteProgram program s) = videoFPS s"
  "videoSeconds (glDeleteProgram program s) = videoSeconds s"
  "maxFrames (glDeleteProgram program s) = maxFrames s"
  "gl_buffers (glDeleteProgram program s) = gl_buffers s"
  "gl_next_buffer (glDeleteProgram program s) = gl_next_buffer s"
  "gl_uniform_buffer_binding (glDeleteProgram program s) = gl_uniform_buffer_binding s"
  "gl_storage_binding (glDeleteProgram program s) = gl_storage_binding s"
  "gl_shaders (glDeleteProgram program s) = gl_shaders s"
  "gl_attached (glDeleteProgram program s) = (gl_attached s)(program := [])"
  "gl_next_object (glDeleteProgram program s) = gl_next_object s"
  "gl_current_program (glDeleteProgram program s) = gl_current_program s"
  "gl_uniforms (glDeleteProgram program s) = gl_uniforms s"
  "gl_viewport (glDeleteProgram program s) = gl_viewport s"
  "gl_dispatches (glDeleteProgram program s) = gl_dispatches s"
  "gl_draws (glDeleteProgram program s) = gl_draws s"
  "window_title (glDeleteProgram program s) = window_title s"
  "console (glDeleteProgram program s) = console s"
  "pixels_size (glDeleteProgram program s) = pixels_size s"
  "readbacks (glDeleteProgram program s) = readbacks s"
  "exportedFrames (glDeleteProgram program s) = exportedFrames s"
  "commands (glDeleteProgram program s) = commands s"
  by (simp_all add: glDeleteProgram_def)

lemma glfwSetWindowTitle_fields:
  "compToFrag (glfwSetWindowTitle title s) = compToFrag s"
  "lightToFrag (glfwSetWindowTitle title s) = lightToFrag s"
  "matrixBuffer (glfwSetWindowTitle title s) = matrixBuffer s"
  "triangleBuffer (glfwSetWindowTitle title s) = triangleBuffer s"
  "draw_program (glfwSetWindowTitle title s) = draw_program s"
  "transform_program (glfwSetWindowTitle title s) = transform_program s"
  "vertex_shader (glfwSetWindowTitle title s) = vertex_shader s"
  "fragment_shader (glfwSetWindowTitle title s) = fragment_shader s"
  "compute_shader (glfwSetWindowTitle title s) = compute_shader s"
  "cameraPos (glfwSetWindowTitle title s) = cameraPos s"
  "tempFrame (glfwSetWindowTitle title s) = tempFrame s"
  "totalFrame (glfwSetWindowTitle title s) = totalFrame s"
  "dtime (glfwSetWindowTitle title s) = dtime s"
  "timebase (glfwSetWindowTitle title s) = timebase s"
  "totalTime (glfwSetWindowTitle title s) = totalTime s"
  "fps (glfwSetWindowTitle title s) = fps s"
  "width (glfwSetWindowTitle title s) = width s"
  "height (glfwSetWindowTitle title s) = height s"
  "videoFPS (glfwSetWindowTitle title s) = videoFPS s"
  "videoSeconds (glfwSetWindowTitle title s) = videoSeconds s"
  "maxFrames (glfwSetWindowTitle title s) = maxFrames s"
  "gl_buffers (glfwSetWindowTitle title s) = gl_buffers s"
  "gl_next_buffer (glfwSetWindowTitle title s) = gl_next_buffer s"
  "gl_uniform_buffer_binding (glfwSetWindowTitle title s) = gl_uniform_buffer_binding s"
  "gl_storage_binding (glfwSetWindowTitle title s) = gl_storage_binding s"
  "gl_shaders (glfwSetWindowTitle title s) = gl_shaders s"
  "gl_attached (glfwSetWindowTitle title s) = gl_attached s"
  "gl_next_object (glfwSetWindowTitle title s) = gl_next_object s"
  "gl_current_program (glfwSetWindowTitle title s) = gl_current_program s"
  "gl_uniforms (glfwSetWindowTitle title s) = gl_uniforms s"
  "gl_viewport (glfwSetWindowTitle title s) = gl_viewport s"
  "gl_dispatches (glfwSetWindowTitle title s) = gl_dispatches s"
  "gl_draws (glfwSetWindowTitle title s) = gl_draws s"
  "window_title (glfwSetWindowTitle title s) = title"
  "console (glfwSetWindowTitle title s) = console s"
  "pixels_size (glfwSetWindowTitle title s) = pixels_size s"
  "readbacks (glfwSetWindowTitle title s) = readbacks s"
  "exportedFrames (glfwSetWindowTitle title s) = exportedFrames s"
  "commands (glfwSetWindowTitle title s) = commands s"
  by (simp_all add: glfwSetWindowTitle_def)

lemma glReadPixels_fields:
  "compToFrag (glReadPixels w h s) = compToFrag s"
  "lightToFrag (glReadPixels w h s) = lightToFrag s"
  "matrixBuffer (glReadPixels w h s) = matrixBuffer s"
  "triangleBuffer (glReadPixels w h s) = triangleBuffer s"
  "draw_program (glReadPixels w h s) = draw_program s"
  "transform_program (glReadPixels w h s) = transform_program s"
  "vertex_shader (glReadPixels w h s) = vertex_shader s"
  "fragment_shader (glReadPixels w h s) = fragment_shader s"
  "compute_shader (glReadPixels w h s) = compute_shader s"
  "cameraPos (glReadPixels w h s) = cameraPos s"
  "tempFrame (glReadPixels w h s) = tempFrame s"
  "totalFrame (glReadPixels w h s) = totalFrame s"
  "dtime (glReadPixels w h s) = dtime s"
  "timebase (glReadPixels w h s) = timebase s"
  "totalTime (glReadPixels w h s) = totalTime s"
  "fps (glReadPixels w h s) = fps s"
  "width (glReadPixels w h s) = width s"
  "height (glReadPixels w h s) = height s"
  "videoFPS (glReadPixels w h s) = videoFPS s"
  "videoSeconds (glReadPixels w h s) = videoSeconds s"
  "maxFrames (glReadPixels w h s) = maxFrames s"
  "gl_buffers (glReadPixels w h s) = gl_buffers s"
  "gl_next_buffer (glReadPixels w h s) = gl_next_buffer s"
  "gl_uniform_buffer_binding (glReadPixels w h s) = gl_uniform_buffer_binding s"
  "gl_storage_binding (glReadPixels w h s) = gl_storage_binding s"
  "gl_shaders (glReadPixels w h s) = gl_shaders s"
  "gl_attached (glReadPixels w h s) = gl_attached s"
  "gl_next_object (glReadPixels w h s) = gl_next_object s"
  "gl_current_program (glReadPixels w h s) = gl_current_program s"
  "gl_uniforms (glReadPixels w h s) = gl_uniforms s"
  "gl_viewport (glReadPixels w h s) = gl_viewport s"
  "gl_dispatches (glReadPixels w h s) = gl_dispatches s"
  "gl_draws (glReadPixels w h s) = gl_draws s"
  "window_title (glReadPixels w h s) = window_title s"
  "console (glReadPixels w h s) = console s"
  "pixels_size (glReadPixels w h s) = pixels_size s"
  "readbacks (glReadPixels w h s) =
     readbacks s @
      [\<lparr>rb_width = w, rb_height = h, rb_buffer_size = pixels_size s\<rparr>]"
  "exportedFrames (glReadPixels w h s) = exportedFrames s"
  "commands (glReadPixels w h s) = commands s"
  by (simp_all add: glReadPixels_def)

lemma FreeImage_Save_fields:
  "compToFrag (FreeImage_Save fileName w h s) = compToFrag s"
  "lightToFrag (FreeImage_Save fileName w h s) = lightToFrag s"
  "matrixBuffer (FreeImage_Save fileName w h s) = matrixBuffer s"
  "triangleBuffer (FreeImage_Save fileName w h s) = triangleBuffer s"
  "draw_program (FreeImage_Save fileName w h s) = draw_program s"
  "transform_program (FreeImage_Save fileName w h s) = transform_program s"
  "vertex_shader (FreeImage_Save fileName w h s) = vertex_shader s"
  "fragment_shader (FreeImage_Save fileName w h s) = fragment_shader s"
  "compute_shader (FreeImage_Save fileName w h s) = compute_shader s"
  "cameraPos (FreeImage_Save fileName w h s) = cameraPos s"
  "tempFrame (FreeImage_Save fileName w h s) = tempFrame s"
  "totalFrame (FreeImage_Save fileName w h s) = totalFrame s"
  "dtime (FreeImage_Save fileName w h s) = dtime s"
  "timebase (FreeImage_Save fileName w h s) = timebase s"
  "totalTime (FreeImage_Save fileName w h s) = totalTime s"
  "fps (FreeImage_Save fileName w h s) = fps s"
  "width (FreeImage_Save fileName w h s) = width s"
  "height (FreeImage_Save fileName w h s) = height s"
  "videoFPS (FreeImage_Save fileName w h s) = videoFPS s"
  "videoSeconds (FreeImage_Save fileName w h s) = videoSeconds s"
  "maxFrames (FreeImage_Save fileName w h s) = maxFrames s"
  "gl_buffers (FreeImage_Save fileName w h s) = gl_buffers s"
  "gl_next_buffer (FreeImage_Save fileName w h s) = gl_next_buffer s"
  "gl_uniform_buffer_binding (FreeImage_Save fileName w h s) = gl_uniform_buffer_binding s"
  "gl_storage_binding (FreeImage_Save fileName w h s) = gl_storage_binding s"
  "gl_shaders (FreeImage_Save fileName w h s) = gl_shaders s"
  "gl_attached (FreeImage_Save fileName w h s) = gl_attached s"
  "gl_next_object (FreeImage_Save fileName w h s) = gl_next_object s"
  "gl_current_program (FreeImage_Save fileName w h s) = gl_current_program s"
  "gl_uniforms (FreeImage_Save fileName w h s) = gl_uniforms s"
  "gl_viewport (FreeImage_Save fileName w h s) = gl_viewport s"
  "gl_dispatches (FreeImage_Save fileName w h s) = gl_dispatches s"
  "gl_draws (FreeImage_Save fileName w h s) = gl_draws s"
  "window_title (FreeImage_Save fileName w h s) = window_title s"
  "console (FreeImage_Save fileName w h s) = console s"
  "pixels_size (FreeImage_Save fileName w h s) = pixels_size s"
  "readbacks (FreeImage_Save fileName w h s) = readbacks s"
  "exportedFrames (FreeImage_Save fileName w h s) =
     exportedFrames s @
      [\<lparr>file_name = fileName, image_width = w, image_height = h\<rparr>]"
  "commands (FreeImage_Save fileName w h s) = commands s"
  by (simp_all add: FreeImage_Save_def)

lemma window_size_callback_fields:
  "compToFrag (window_size_callback w h s) = compToFrag s"
  "lightToFrag (window_size_callback w h s) = lightToFrag s"
  "matrixBuffer (window_size_callback w h s) = matrixBuffer s"
  "triangleBuffer (window_size_callback w h s) = triangleBuffer s"
  "draw_program (window_size_callback w h s) = draw_program s"
  "transform_program (window_size_callback w h s) = transform_program s"
  "vertex_shader (window_size_callback w h s) = vertex_shader s"
  "fragment_shader (window_size_callback w h s) = fragment_shader s"
  "compute_shader (window_size_callback w h s) = compute_shader s"
  "cameraPos (window_size_callback w h s) = cameraPos s"
  "tempFrame (window_size_callback w h s) = tempFrame s"
  "totalFrame (window_size_callback w h s) = totalFrame s"
  "dtime (window_size_callback w h s) = dtime s"
  "timebase (window_size_callback w h s) = timebase s"
  "totalTime (window_size_callback w h s) = totalTime s"
  "fps (window_size_callback w h s) = fps s"
  "width (window_size_callback w h s) = w"
  "height (window_size_callback w h s) = h"
  "videoFPS (window_size_callback w h s) = videoFPS s"
  "videoSeconds (window_size_callback w h s) = videoSeconds s"
  "maxFrames (window_size_callback w h s) = maxFrames s"
  "gl_buffers (window_size_callback w h s) = gl_buffers s"
  "gl_next_buffer (window_size_callback w h s) = gl_next_buffer s"
  "gl_uniform_buffer_binding (window_size_callback w h s) = gl_uniform_buffer_binding s"
  "gl_storage_binding (window_size_callback w h s) = gl_storage_binding s"
  "gl_shaders (window_size_callback w h s) = gl_shaders s"
  "gl_attached (window_size_callback w h s) = gl_attached s"
  "gl_next_object (window_size_callback w h s) = gl_next_object s"
  "gl_current_program (window_size_callback w h s) = gl_current_program s"
  "gl_uniforms (window_size_callback w h s) = gl_uniforms s"
  "gl_viewport (window_size_callback w h s) = (0, 0, w, h)"
  "gl_dispatches (window_size_callback w h s) = gl_dispatches s"
  "gl_draws (window_size_callback w h s) = gl_draws s"
  "window_title (window_size_callback w h s) = window_title s"
  "console (window_size_callback w h s) = console s"
  "pixels_size (window_size_callback w h s) = pixels_size s"
  "readbacks (window_size_callback w h s) = readbacks s"
  "exportedFrames (window_size_callback w h s) = exportedFrames s"
  "commands (window_size_callback w h s) = commands s"
  by (simp_all add: window_size_callback_def Let_def glViewport_def)

lemma readShader_fields:
  "fst (readShader env fileName s) = (case file_contents env fileName of None \<Rightarrow> [] | Some shaderCode \<Rightarrow> shaderCode)"
  "compToFrag (snd (readShader env fileName s)) = compToFrag s"
  "lightToFrag (snd (readShader env fileName s)) = lightToFrag s"
  "matrixBuffer (snd (readShader env fileName s)) = matrixBuffer s"
  "triangleBuffer (snd (readShader env fileName s)) = triangleBuffer s"
  "draw_program (snd (readShader env fileName s)) = draw_program s"
  "transform_program (snd (readShader env fileName s)) = transform_program s"
  "vertex_shader (snd (readShader env fileName s)) = vertex_shader s"
  "fragment_shader (snd (readShader env fileName s)) = fragment_shader s"
  "compute_shader (snd (readShader env fileName s)) = compute_shader s"
  "cameraPos (snd (readShader env fileName s)) = cameraPos s"
  "tempFrame (snd (readShader env fileName s)) = tempFrame s"
  "totalFrame (snd (readShader env fileName s)) = totalFrame s"
  "dtime (snd (readShader env fileName s)) = dtime s"
  "timebase (snd (readShader env fileName s)) = timebase s"
  "totalTime (snd (readShader env fileName s)) = totalTime s"
  "fps (snd (readShader env fileName s)) = fps s"
  "width (snd (readShader env fileName s)) = width s"
  "height (snd (readShader env fileName s)) = height s"
  "videoFPS (snd (readShader env fileName s)) = videoFPS s"
  "videoSeconds (snd (readShader env fileName s)) = videoSeconds s"
  "maxFrames (snd (readShader env fileName s)) = maxFrames s"
  "gl_buffers (snd (readShader env fileName s)) = gl_buffers s"
  "gl_next_buffer (snd (readShader env fileName s)) = gl_next_buffer s"
  "gl_uniform_buffer_binding (snd (readShader env fileName s)) = gl_uniform_buffer_binding s"
  "gl_storage_binding (snd (readShader env fileName s)) = gl_storage_binding s"
  "gl_shaders (snd (readShader env fileName s)) = gl_shaders s"
  "gl_attached (snd (readShader env fileName s)) = gl_attached s"
  "gl_next_object (snd (readShader env fileName s)) = gl_next_object s"
  "gl_current_program (snd (readShader env fileName s)) = gl_current_program s"
  "gl_uniforms (snd (readShader env fileName s)) = gl_uniforms s"
  "gl_viewport (snd (readShader env fileName s)) = gl_viewport s"
  "gl_dispatches (snd (readShader env fileName s)) = gl_dispatches s"
  "gl_draws (snd (readShader env fileName s)) = gl_draws s"
  "window_title (snd (readShader env fileName s)) = window_title s"
  "console (snd (readShader env fileName s)) =
     console s @
      (case file_contents env fileName of
         None \<Rightarrow> [cannot_read_message fileName] | Some shaderCode \<Rightarrow> [])"
  "pixels_size (snd (readShader env fileName s)) = pixels_size s"
  "readbacks (snd (readShader env fileName s)) = readbacks s"
  "exportedFrames (snd (readShader env fileName s)) = exportedFrames s"
  "commands (snd (readShader env fileName s)) = commands s"
  by (simp_all add: readShader_def split: option.split)

lemma createShader_fields:
  "fst (createShader env sourceCode shaderType s) = gl_next_object s"
  "compToFrag (snd (createShader env sourceCode shaderType s)) = compToFrag s"
  "lightToFrag (snd (createShader env sourceCode shaderType s)) = lightToFrag s"
  "matrixBuffer (snd (createShader env sourceCode shaderType s)) = matrixBuffer s"
  "triangleBuffer (snd (createShader env sourceCode shaderType s)) = triangleBuffer s"
  "draw_program (snd (createShader env sourceCode shaderType s)) = draw_program s"
  "transform_program (snd (createShader env sourceCode shaderType s)) = transform_program s"
  "vertex_shader (snd (createShader env sourceCode shaderType s)) = vertex_shader s"
  "fragment_shader (snd (createShader env sourceCode shaderType s)) = fragment_shader s"
  "compute_shader (snd (createShader env sourceCode shaderType s)) = compute_shader s"
  "cameraPos (snd (createShader env sourceCode shaderType s)) = cameraPos s"
  "tempFrame (snd (createShader env sourceCode shaderType s)) = tempFrame s"
  "totalFrame (snd (createShader env sourceCode shaderType s)) = totalFrame s"
  "dtime (snd (createShader env sourceCode shaderType s)) = dtime s"
  "timebase (snd (createShader env sourceCode shaderType s)) = timebase s"
  "totalTime (snd (createShader env sourceCode shaderType s)) = totalTime s"
  "fps (snd (createShader env sourceCode shaderType s)) = fps s"
  "width (snd (createShader env sourceCode shaderType s)) = width s"
  "height (snd (createShader env sourceCode shaderType s)) = height s"
  "videoFPS (snd (createShader env sourceCode shaderType s)) = videoFPS s"
  "videoSeconds (snd (createShader env sourceCode shaderType s)) = videoSeconds s"
  "maxFrames (snd (createShader env sourceCode shaderType s)) = maxFrames s"
  "gl_buffers (snd (createShader env sourceCode shaderType s)) = gl_buffers s"
  "gl_next_buffer (snd (createShader env sourceCode shaderType s)) = gl_next_buffer s"
  "gl_uniform_buffer_binding (snd (createShader env sourceCode shaderType s)) = gl_uniform_buffer_binding s"
  "gl_storage_binding (snd (createShader env sourceCode shaderType s)) = gl_storage_binding s"
  "gl_shaders (snd (createShader env sourceCode shaderType s)) =
     (gl_shaders s)(gl_next_object s :=
        (if compile_status env shaderType sourceCode then Some True else None))"
  "gl_attached (snd (createShader env sourceCode shaderType s)) = gl_attached s"
  "gl_next_object (snd (createShader env sourceCode shaderType s)) = Suc (gl_next_object s)"
  "gl_current_program (snd (createShader env sourceCode shaderType s)) = gl_current_program s"
  "gl_uniforms (snd (createShader env sourceCode shaderType s)) = gl_uniforms s"
  "gl_viewport (snd (createShader env sourceCode shaderType s)) = gl_viewport s"
  "gl_dispatches (snd (createShader env sourceCode shaderType s)) = gl_dispatches s"
  "gl_draws (snd (createShader env sourceCode shaderType s)) = gl_draws s"
  "window_title (snd (createShader env sourceCode shaderType s)) = window_title s"
  "console (snd (createShader env sourceCode shaderType s)) =
     console s @
      (if compile_status env shaderType sourceCode then []
       else [compile_failed_message, info_log env shaderType sourceCode])"
  "pixels_size (snd (createShader env sourceCode shaderType s)) = pixels_size s"
  "readbacks (snd (createShader env sourceCode shaderType s)) = readbacks s"
  "exportedFrames (snd (createShader env sourceCode shaderType s)) = exportedFrames s"
  "commands (snd (createShader env sourceCode shaderType s)) = commands s"
  by (simp_all add: createShader_def glCreateShader_def glCompileShader_def glDeleteShader_def Let_def)

lemmas call_fields =
  glGenBuffers_fields
  glBindBuffer_fields
  glBufferData_fields
  glBindBufferBase_fields
  glUseProgram_fields
  glDispatchCompute_fields
  glDrawArrays_fields
  glViewport_fields
  glCreateProgram_fields
  glAttachShader_fields
  glDeleteShader_fields
  glDeleteProgram_fields
  glfwSetWindowTitle_fields
  glReadPixels_fields
  FreeImage_Save_fields
  window_size_callback_fields
  readShader_fields
  createShader_fields

lemmas if_fields =
  if_distrib [of compToFrag]
  if_distrib [of lightToFrag]
  if_distrib [of matrixBuffer]
  if_distrib [of triangleBuffer]
  if_distrib [of draw_program]
  if_distrib [of transform_program]
  if_distrib [of vertex_shader]
  if_distrib [of fragment_shader]
  if_distrib [of compute_shader]
  if_distrib [of cameraPos]
  if_distrib [of tempFrame]
  if_distrib [of totalFrame]
  if_distrib [of dtime]
  if_distrib [of timebase]
  if_distrib [of totalTime]
  if_distrib [of fps]
  if_distrib [of width]
  if_distrib [of height]
  if_distrib [of videoFPS]
  if_distrib [of videoSeconds]
  if_distrib [of maxFrames]
  if_distrib [of gl_buffers]
  if_distrib [of gl_next_buffer]
  if_distrib [of gl_uniform_buffer_binding]
  if_distrib [of gl_storage_binding]
  if_distrib [of gl_shaders]
  if_distrib [of gl_attached]
  if_distrib [of gl_next_object]
  if_distrib [of gl_current_program]
  if_distrib [of gl_uniforms]
  if_distrib [of gl_viewport]
  if_distrib [of gl_dispatches]
  if_distrib [of gl_draws]
  if_distrib [of window_title]
  if_distrib [of console]
  if_distrib [of pixels_size]
  if_distrib [of readbacks]
  if_distrib [of exportedFrames]
  if_distrib [of commands]

lemmas chain_unfold = Let_def case_prod_beta call_fields if_fields

lemmas chain_cong = let_weak_cong prod.case_cong_weak

lemma buffer_sizes_nonneg:
  "\<not> compToFragSize < 0" "\<not> matrixBufferSize < 0" "\<not> triangleBufferSize < 0"
  "\<not> lightToFragSize < 0"
  by (simp_all add: compToFragSize_def matrixBufferSize_def triangleBufferSize_def
      lightToFragSize_def sizeof_mat4_def sizeof_light_def sizeof_Mesh_def sizeof_triangle_def)

subsection \<open>\<^verbatim>\<open>renderScene\<close>\<close>

lemma storage_binding_updates:
  "f(0 := a, Suc 0 := b, 2 := c, 0 := d, Suc 0 := e) = f(2 := c, 0 := d, Suc 0 := (e::nat))"
  by (rule ext) simp

lemma renderScene_fields:
  "compToFrag (renderScene now s) = compToFrag s"
  "lightToFrag (renderScene now s) = lightToFrag s"
  "matrixBuffer (renderScene now s) = matrixBuffer s"
  "triangleBuffer (renderScene now s) = triangleBuffer s"
  "draw_program (renderScene now s) = draw_program s"
  "transform_program (renderScene now s) = transform_program s"
  "vertex_shader (renderScene now s) = vertex_shader s"
  "fragment_shader (renderScene now s) = fragment_shader s"
  "compute_shader (renderScene now s) = compute_shader s"
  "cameraPos (renderScene now s) = Vec3 0 8 8"
  "tempFrame (renderScene now s) = (if 1 < now - timebase s then 0 else tempFrame s) + 1"
  "totalFrame (renderScene now s) = totalFrame s + 1"
  "dtime (renderScene now s) = now"
  "timebase (renderScene now s) = (if 1 < now - timebase s then now else timebase s)"
  "totalTime (renderScene now s) = now"
  "fps (renderScene now s) =
     (if 1 < now - timebase s
      then int_div (tempFrame s) (int_of_double (now - timebase s)) else fps s)"
  "width (renderScene now s) = width s"
  "height (renderScene now s) = height s"
  "videoFPS (renderScene now s) = videoFPS s"
  "videoSeconds (renderScene now s) = videoSeconds s"
  "maxFrames (renderScene now s) = maxFrames s"
  "gl_buffers (renderScene now s) =
     (if lightToFrag s = 0
      then (if matrixBuffer s = 0 then gl_buffers s
            else (gl_buffers s)(matrixBuffer s \<mapsto>
                   \<lparr>buf_size = matrixBufferSize,
                    buf_data = MatrixData (test_matrices (real_of_int (totalFrame s) / real_of_int (videoFPS s)))\<rparr>))
      else (if matrixBuffer s = 0 then gl_buffers s
            else (gl_buffers s)(matrixBuffer s \<mapsto>
                   \<lparr>buf_size = matrixBufferSize,
                    buf_data = MatrixData (test_matrices (real_of_int (totalFrame s) / real_of_int (videoFPS s)))\<rparr>))
           (lightToFrag s \<mapsto>
              \<lparr>buf_size = lightToFragSize,
               buf_data = LightData (lights_array (real_of_int (totalFrame s) / real_of_int (videoFPS s)))\<rparr>))"
  "gl_next_buffer (renderScene now s) = gl_next_buffer s"
  "gl_uniform_buffer_binding (renderScene now s) = 0"
  "gl_storage_binding (renderScene now s) =
     (gl_storage_binding s)(2 := matrixBuffer s, 0 := compToFrag s, 1 := lightToFrag s)"
  "gl_shaders (renderScene now s) = gl_shaders s"
  "gl_attached (renderScene now s) = gl_attached s"
  "gl_next_object (renderScene now s) = gl_next_object s"
  "gl_current_program (renderScene now s) = draw_program s"
  "gl_uniforms (renderScene now s) =
     Some (calcCameraRays (Vec3 0 8 8) (Vec3 0 0.5 0) (Vec3 0 1 0) 45
             (real_of_int (width s) / real_of_int (height s)))"
  "gl_viewport (renderScene now s) = gl_viewport s"
  "gl_dispatches (renderScene now s) = gl_dispatches s @ [(14, 1, 1)]"
  "gl_draws (renderScene now s) = Suc (gl_draws s)"
  "window_title (renderScene now s) =
     (if 1 < now - timebase s
      then title_text (int_div (tempFrame s) (int_of_double (now - timebase s)))
             (totalFrame s) (maxFrames s)
      else window_title s)"
  "console (renderScene now s) = console s"
  "pixels_size (renderScene now s) = pixels_size s"
  "readbacks (renderScene now s) = readbacks s"
  "exportedFrames (renderScene now s) = exportedFrames s"
  "commands (renderScene now s) = commands s"
  by (simp_all add: renderScene_def chain_unfold buffer_sizes_nonneg storage_binding_updates
      cong: chain_cong)

subsection \<open>\<^verbatim>\<open>glfwPollEvents\<close>\<close>

lemma glfwPollEvents_Nil: "glfwPollEvents [] s = s"
  by (simp add: glfwPollEvents_def)

lemma glfwPollEvents_snoc:
  "glfwPollEvents (events @ [(w, h)]) s = window_size_callback w h (glfwPollEvents events s)"
  by (simp add: glfwPollEvents_def)

lemma glfwPollEvents_all:
  "compToFrag (glfwPollEvents events s) =
     compToFrag s \<and>
   lightToFrag (glfwPollEvents events s) =
     lightToFrag s \<and>
   matrixBuffer (glfwPollEvents events s) =
     matrixBuffer s \<and>
   triangleBuffer (glfwPollEvents events s) =
     triangleBuffer s \<and>
   draw_program (glfwPollEvents events s) =
     draw_program s \<and>
   transform_program (glfwPollEvents events s) =
     transform_program s \<and>
   vertex_shader (glfwPollEvents events s) =
     vertex_shader s \<and>
   fragment_shader (glfwPollEvents events s) =
     fragment_shader s \<and>
   compute_shader (glfwPollEvents events s) =
     compute_shader s \<and>
   cameraPos (glfwPollEvents events s) =
     cameraPos s \<and>
   tempFrame (glfwPollEvents events s) =
     tempFrame s \<and>
   totalFrame (glfwPollEvents events s) =
     totalFrame s \<and>
   dtime (glfwPollEvents events s) =
     dtime s \<and>
   timebase (glfwPollEvents events s) =
     timebase s \<and>
   totalTime (glfwPollEvents events s) =
     totalTime s \<and>
   fps (glfwPollEvents events s) =
     fps s \<and>
   width (glfwPollEvents events s) =
     (if events = [] then width s else fst (last events)) \<and>
   height (glfwPollEvents events s) =
     (if events = [] then height s else snd (last events)) \<and>
   videoFPS (glfwPollEvents events s) =
     videoFPS s \<and>
   videoSeconds (glfwPollEvents events s) =
     videoSeconds s \<and>
   maxFrames (glfwPollEvents events s) =
     maxFrames s \<and>
   gl_buffers (glfwPollEvents events s) =
     gl_buffers s \<and>
   gl_next_buffer (glfwPollEvents events s) =
     gl_next_buffer s \<and>
   gl_uniform_buffer_binding (glfwPollEvents events s) =
     gl_uniform_buffer_binding s \<and>
   gl_storage_binding (glfwPollEvents events s) =
     gl_storage_binding s \<and>
   gl_shaders (glfwPollEvents events s) =
     gl_shaders s \<and>
   gl_attached (glfwPollEvents events s) =
     gl_attached s \<and>
   gl_next_object (glfwPollEvents events s) =
     gl_next_object s \<and>
   gl_current_program (glfwPollEvents events s) =
     gl_current_program s \<and>
   gl_uniforms (glfwPollEvents events s) =
     gl_uniforms s \<and>
   gl_viewport (glfwPollEvents events s) =
     (if events = [] then gl_viewport s
      else (0, 0, fst (last events), snd (last events))) \<and>
   gl_dispatches (glfwPollEvents events s) =
     gl_dispatches s \<and>
   gl_draws (glfwPollEvents events s) =
     gl_draws s \<and>
   window_title (glfwPollEvents events s) =
     window_title s \<and>
   console (glfwPollEvents events s) =
     console s \<and>
   pixels_size (glfwPollEvents events s) =
     pixels_size s \<and>
   readbacks (glfwPollEvents events s) =
     readbacks s \<and>
   exportedFrames (glfwPollEvents events s) =
     exportedFrames s \<and>
   commands (glfwPollEvents events s) =
     commands s"
proof (induction events rule: rev_induct)
  case Nil
  show ?case by (simp add: glfwPollEvents_Nil)
next
  case (snoc e events)
  obtain w h where e: "e = (w, h)" by (cases e)
  show ?case
    unfolding e glfwPollEvents_snoc by (simp add: window_size_callback_fields snoc.IH)
qed

lemma glfwPollEvents_fields:
  "compToFrag (glfwPollEvents events s) = compToFrag s"
  "lightToFrag (glfwPollEvents events s) = lightToFrag s"
  "matrixBuffer (glfwPollEvents events s) = matrixBuffer s"
  "triangleBuffer (glfwPollEvents events s) = triangleBuffer s"
  "draw_program (glfwPollEvents events s) = draw_program s"
  "transform_program (glfwPollEvents events s) = transform_program s"
  "vertex_shader (glfwPollEvents events s) = vertex_shader s"
  "fragment_shader (glfwPollEvents events s) = fragment_shader s"
  "compute_shader (glfwPollEvents events s) = compute_shader s"
  "cameraPos (glfwPollEvents events s) = cameraPos s"
  "tempFrame (glfwPollEvents events s) = tempFrame s"
  "totalFrame (glfwPollEvents events s) = totalFrame s"
  "dtime (glfwPollEvents events s) = dtime s"
  "timebase (glfwPollEvents events s) = timebase s"
  "totalTime (glfwPollEvents events s) = totalTime s"
  "fps (glfwPollEvents events s) = fps s"
  "width (glfwPollEvents events s) = (if events = [] then width s else fst (last events))"
  "height (glfwPollEvents events s) =
     (if events = [] then height s else snd (last events))"
  "videoFPS (glfwPollEvents events s) = videoFPS s"
  "videoSeconds (glfwPollEvents events s) = videoSeconds s"
  "maxFrames (glfwPollEvents events s) = maxFrames s"
  "gl_buffers (glfwPollEvents events s) = gl_buffers s"
  "gl_next_buffer (glfwPollEvents events s) = gl_next_buffer s"
  "gl_uniform_buffer_binding (glfwPollEvents events s) = gl_uniform_buffer_binding s"
  "gl_storage_binding (glfwPollEvents events s) = gl_storage_binding s"
  "gl_shaders (glfwPollEvents events s) = gl_shaders s"
  "gl_attached (glfwPollEvents events s) = gl_attached s"
  "gl_next_object (glfwPollEvents events s) = gl_next_object s"
  "gl_current_program (glfwPollEvents events s) = gl_current_program s"
  "gl_uniforms (glfwPollEvents events s) = gl_uniforms s"
  "gl_viewport (glfwPollEvents events s) =
     (if events = [] then gl_viewport s
      else (0, 0, fst (last events), snd (last events)))"
  "gl_dispatches (glfwPollEvents events s) = gl_dispatches s"
  "gl_draws (glfwPollEvents events s) = gl_draws s"
  "window_title (glfwPollEvents events s) = window_title s"
  "console (glfwPollEvents events s) = console s"
  "pixels_size (glfwPollEvents events s) = pixels_size s"
  "readbacks (glfwPollEvents events s) = readbacks s"
  "exportedFrames (glfwPollEvents events s) = exportedFrames s"
  "commands (glfwPollEvents events s) = commands s"
  using glfwPollEvents_all [of events s] by simp_all

subsection \<open>The loop body\<close>

lemma loop_body_fields:
  "compToFrag (loop_body env k s) = compToFrag s"
  "lightToFrag (loop_body env k s) = lightToFrag s"
  "matrixBuffer (loop_body env k s) = matrixBuffer s"
  "triangleBuffer (loop_body env k s) = triangleBuffer s"
  "draw_program (loop_body env k s) = draw_program s"
  "transform_program (loop_body env k s) = transform_program s"
  "vertex_shader (loop_body env k s) = vertex_shader s"
  "fragment_shader (loop_body env k s) = fragment_shader s"
  "compute_shader (loop_body env k s) = compute_shader s"
  "cameraPos (loop_body env k s) = Vec3 0 8 8"
  "tempFrame (loop_body env k s) =
     (if 1 < clock env k - timebase s then 0 else tempFrame s) + 1"
  "totalFrame (loop_body env k s) = totalFrame s + 1"
  "dtime (loop_body env k s) = clock env k"
  "timebase (loop_body env k s) =
     (if 1 < clock env k - timebase s then clock env k else timebase s)"
  "totalTime (loop_body env k s) = clock env k"
  "fps (loop_body env k s) =
     (if 1 < clock env k - timebase s
      then int_div (tempFrame s) (int_of_double (clock env k - timebase s)) else fps s)"
  "width (loop_body env k s) =
     (if window_events env k = [] then width s else fst (last (window_events env k)))"
  "height (loop_body env k s) =
     (if window_events env k = [] then height s else snd (last (window_events env k)))"
  "videoFPS (loop_body env k s) = videoFPS s"
  "videoSeconds (loop_body env k s) = videoSeconds s"
  "maxFrames (loop_body env k s) = maxFrames s"
  "gl_buffers (loop_body env k s) =
     (if lightToFrag s = 0
      then (if matrixBuffer s = 0 then gl_buffers s
            else (gl_buffers s)(matrixBuffer s \<mapsto>
                   \<lparr>buf_size = matrixBufferSize,
                    buf_data = MatrixData (test_matrices (real_of_int (totalFrame s) / real_of_int (videoFPS s)))\<rparr>))
      else (if matrixBuffer s = 0 then gl_buffers s
            else (gl_buffers s)(matrixBuffer s \<mapsto>
                   \<lparr>buf_size = matrixBufferSize,
                    buf_data = MatrixData (test_matrices (real_of_int (totalFrame s) / real_of_int (videoFPS s)))\<rparr>))
           (lightToFrag s \<mapsto>
              \<lparr>buf_size = lightToFragSize,
               buf_data = LightData (lights_array (real_of_int (totalFrame s) / real_of_int (videoFPS s)))\<rparr>))"
  "gl_next_buffer (loop_body env k s) = gl_next_buffer s"
  "gl_uniform_buffer_binding (loop_body env k s) = 0"
  "gl_storage_binding (loop_body env k s) =
     (gl_storage_binding s)(2 := matrixBuffer s, 0 := compToFrag s, 1 := lightToFrag s)"
  "gl_shaders (loop_body env k s) = gl_shaders s"
  "gl_attached (loop_body env k s) = gl_attached s"
  "gl_next_object (loop_body env k s) = gl_next_object s"
  "gl_current_program (loop_body env k s) = draw_program s"
  "gl_uniforms (loop_body env k s) =
     Some (calcCameraRays (Vec3 0 8 8) (Vec3 0 0.5 0) (Vec3 0 1 0) 45
             (real_of_int (width s) / real_of_int (height s)))"
  "gl_viewport (loop_body env k s) =
     (if window_events env k = [] then gl_viewport s
      else (0, 0, fst (last (window_events env k)), snd (last (window_events env k))))"
  "gl_dispatches (loop_body env k s) = gl_dispatches s @ [(14, 1, 1)]"
  "gl_draws (loop_body env k s) = Suc (gl_draws s)"
  "window_title (loop_body env k s) =
     (if 1 < clock env k - timebase s
      then title_text (int_div (tempFrame s) (int_of_double (clock env k - timebase s)))
             (totalFrame s) (maxFrames s)
      else window_title s)"
  "console (loop_body env k s) = console s"
  "pixels_size (loop_body env k s) = pixels_size s"
  "readbacks (loop_body env k s) =
     readbacks s @
     [\<lparr>rb_width = (if window_events env k = [] then width s else fst (last (window_events env k))),
       rb_height = (if window_events env k = [] then height s else snd (last (window_events env k))),
       rb_buffer_size = pixels_size s\<rparr>]"
  "exportedFrames (loop_body env k s) =
     exportedFrames s @
     [\<lparr>file_name = frame_file_name (totalFrame s + 1),
       image_width = (if window_events env k = [] then width s else fst (last (window_events env k))),
       image_height = (if window_events env k = [] then height s else snd (last (window_events env k)))\<rparr>]"
  "commands (loop_body env k s) = commands s"
  by (simp_all add: loop_body_def Let_def call_fields renderScene_fields glfwPollEvents_fields
      cong: chain_cong)

subsection \<open>The loop\<close>

lemma iterations_counters:
  "totalFrame (iterations n env k s) = totalFrame s + int n"
  "maxFrames (iterations n env k s) = maxFrames s"
  "videoFPS (iterations n env k s) = videoFPS s"
  "pixels_size (iterations n env k s) = pixels_size s"
  "gl_draws (iterations n env k s) = gl_draws s + n"
  "length (readbacks (iterations n env k s)) = length (readbacks s) + n"
  "length (exportedFrames (iterations n env k s)) = length (exportedFrames s) + n"
  by (induction n arbitrary: k s) (simp_all add: loop_body_fields)

lemma iterations_exported:
  "map file_name (exportedFrames (iterations n env k s)) =
     map file_name (exportedFrames s) @
     map (\<lambda>i. frame_file_name (totalFrame s + 1 + int i)) [0..<n]"
proof (induction n arbitrary: k s)
  case 0
  show ?case by simp
next
  case (Suc n)
  have "map (\<lambda>i. frame_file_name (totalFrame s + 1 + int i)) [0..<Suc n] =
        frame_file_name (totalFrame s + 1) #
        map (\<lambda>i. frame_file_name (totalFrame s + 1 + 1 + int i)) [0..<n]"
    by (simp add: map_upt_Suc add.assoc del: upt_Suc)
  then show ?case
    by (simp add: Suc.IH loop_body_fields del: upt_Suc)
qed

lemma main_loop_iterations:
  "totalFrame s + int n = maxFrames s \<Longrightarrow> main_loop env k s = Some (iterations n env k s)"
proof (induction n arbitrary: k s)
  case 0
  then show ?case by (subst main_loop.simps) simp
next
  case (Suc n)
  have "totalFrame (loop_body env k s) + int n = maxFrames (loop_body env k s)"
    using Suc.prems by (simp add: loop_body_fields)
  then have "main_loop env (Suc k) (loop_body env k s) =
             Some (iterations n env (Suc k) (loop_body env k s))"
    by (rule Suc.IH)
  moreover have "totalFrame s \<noteq> maxFrames s" using Suc.prems by simp
  ultimately show ?case by (subst main_loop.simps) simp
qed

subsection \<open>\<^verbatim>\<open>init\<close> and the start of \<^verbatim>\<open>main\<close>\<close>

lemma init_with_counters:
  "totalFrame (init_with meshes env s) = totalFrame s"
  "maxFrames (init_with meshes env s) = maxFrames s"
  "videoFPS (init_with meshes env s) = videoFPS s"
  "width (init_with meshes env s) = width s"
  "height (init_with meshes env s) = height s"
  "gl_draws (init_with meshes env s) = gl_draws s"
  "exportedFrames (init_with meshes env s) = exportedFrames s"
  "readbacks (init_with meshes env s) = readbacks s"
  "pixels_size (init_with meshes env s) = pixels_size s"
  "gl_viewport (init_with meshes env s) = gl_viewport s"
  "gl_uniforms (init_with meshes env s) = gl_uniforms s"
  by (simp_all add: init_with_def chain_unfold cong: chain_cong)

lemma init_with_names:
  "compToFrag (init_with meshes env s) = gl_next_buffer s"
  "matrixBuffer (init_with meshes env s) = Suc (gl_next_buffer s)"
  "triangleBuffer (init_with meshes env s) = Suc (Suc (gl_next_buffer s))"
  "lightToFrag (init_with meshes env s) = Suc (Suc (Suc (gl_next_buffer s)))"
  by (simp_all add: init_with_def chain_unfold cong: chain_cong)

lemma init_with_buffers:
  "0 < gl_next_buffer s \<Longrightarrow>
   gl_buffers (init_with meshes env s) =
     (gl_buffers s)
       (gl_next_buffer s \<mapsto> \<lparr>buf_size = compToFragSize, buf_data = NullData\<rparr>,
        Suc (gl_next_buffer s) \<mapsto> \<lparr>buf_size = matrixBufferSize, buf_data = NullData\<rparr>,
        Suc (Suc (gl_next_buffer s)) \<mapsto>
          \<lparr>buf_size = triangleBufferSize, buf_data = MeshData meshes\<rparr>,
        Suc (Suc (Suc (gl_next_buffer s))) \<mapsto>
          \<lparr>buf_size = int (Suc (Suc (Suc (gl_next_buffer s)))), buf_data = NullData\<rparr>)"
  by (simp add: init_with_def chain_unfold buffer_sizes_nonneg cong: chain_cong)

lemma init_with_console:
  "console (init_with meshes env s) =
     console s @
     (case file_contents env VertexShader_glsl of
        None \<Rightarrow> [cannot_read_message VertexShader_glsl] | Some c \<Rightarrow> []) @
     (case file_contents env FragmentShader_glsl of
        None \<Rightarrow> [cannot_read_message FragmentShader_glsl] | Some c \<Rightarrow> []) @
     (case file_contents env Compute_glsl of
        None \<Rightarrow> [cannot_read_message Compute_glsl] | Some c \<Rightarrow> []) @
     (if compile_status env GL_VERTEX_SHADER
           (case file_contents env VertexShader_glsl of None \<Rightarrow> [] | Some c \<Rightarrow> c)
      then []
      else [compile_failed_message,
            info_log env GL_VERTEX_SHADER
              (case file_contents env VertexShader_glsl of None \<Rightarrow> [] | Some c \<Rightarrow> c)]) @
     (if compile_status env GL_FRAGMENT_SHADER
           (case file_contents env FragmentShader_glsl of None \<Rightarrow> [] | Some c \<Rightarrow> c)
      then []
      else [compile_failed_message,
            info_log env GL_FRAGMENT_SHADER
              (case file_contents env FragmentShader_glsl of None \<Rightarrow> [] | Some c \<Rightarrow> c)]) @
     (if compile_status env GL_COMPUTE_SHADER
           (case file_contents env Compute_glsl of None \<Rightarrow> [] | Some c \<Rightarrow> c)
      then []
      else [compile_failed_message,
            info_log env GL_COMPUTE_SHADER
              (case file_contents env Compute_glsl of None \<Rightarrow> [] | Some c \<Rightarrow> c)])"
  by (simp add: init_with_def chain_unfold cong: chain_cong)

lemma main_setup_counters:
  "totalFrame (main_setup env) = 0"
  "maxFrames (main_setup env) = 600"
  "videoFPS (main_setup env) = 60"
  "width (main_setup env) = 1280"
  "height (main_setup env) = 720"
  "gl_draws (main_setup env) = 0"
  "exportedFrames (main_setup env) = []"
  "readbacks (main_setup env) = []"
  "pixels_size (main_setup env) = 2764800"
  "gl_viewport (main_setup env) = (0, 0, 1280, 720)"
  by (simp_all add: main_setup_def Let_def init_def init_with_counters initial_state_def)

lemma main_setup_names:
  "compToFrag (main_setup env) = 1"
  "matrixBuffer (main_setup env) = 2"
  "triangleBuffer (main_setup env) = 3"
  "lightToFrag (main_setup env) = 4"
  by (simp_all add: main_setup_def Let_def init_def init_with_names initial_state_def)

lemma main_setup_buffers:
  "gl_buffers (main_setup env) =
     [1 \<mapsto> \<lparr>buf_size = compToFragSize, buf_data = NullData\<rparr>,
      2 \<mapsto> \<lparr>buf_size = matrixBufferSize, buf_data = NullData\<rparr>,
      3 \<mapsto> \<lparr>buf_size = triangleBufferSize, buf_data = MeshData scene_meshes\<rparr>,
      4 \<mapsto> \<lparr>buf_size = 4, buf_data = NullData\<rparr>]"
proof -
  have "0 < gl_next_buffer initial_state" by (simp add: initial_state_def)
  then show ?thesis
    by (simp add: main_setup_def Let_def init_def init_with_buffers)
       (simp add: initial_state_def numeral_2_eq_2 numeral_3_eq_3 eval_nat_numeral)
qed

lemma main_finish_fields:
  "exportedFrames (main_finish s) = exportedFrames s"
  "readbacks (main_finish s) = readbacks s"
  "totalFrame (main_finish s) = totalFrame s"
  "gl_draws (main_finish s) = gl_draws s"
  "console (main_finish s) = console s"
  "commands (main_finish s) = commands s @ [ffmpeg_command (videoFPS s)]"
  by (simp_all add: main_finish_def chain_unfold cong: chain_cong)

lemma main_loop_600:
  "main_loop env 0 (main_setup env) = Some (iterations 600 env 0 (main_setup env))"
  by (rule main_loop_iterations) (simp add: main_setup_counters)

lemma main_eq:
  "main env = Some (main_finish (iterations 600 env 0 (main_setup env)))"
  by (simp add: main_def main_loop_600)

subsection \<open>Decimal output\<close>

lemma digit_char_inj:
  "a < 10 \<Longrightarrow> b < 10 \<Longrightarrow> digit_char a = digit_char b \<Longrightarrow> a = b"
proof -
  assume a: "a < 10" and b: "b < 10" and eq: "digit_char a = digit_char b"
  have d: "distinct ''0123456789''" by simp
  have "a < length ''0123456789''" "b < length ''0123456789''" using a b by simp_all
  with d eq show "a = b"
    unfolding digit_char_def by (simp only: nth_eq_iff_index_eq)
qed

lemma nat_to_string_length: "0 < length (nat_to_string n)"
  by (induction n rule: nat_to_string.induct) (subst nat_to_string.simps, simp)

lemma nat_to_string_small: "n < 10 \<Longrightarrow> nat_to_string n = [digit_char n]"
  by (subst nat_to_string.simps) simp

lemma nat_to_string_large:
  "\<not> n < 10 \<Longrightarrow> nat_to_string n = nat_to_string (n div 10) @ [digit_char (n mod 10)]"
  by (subst nat_to_string.simps) simp

lemma nat_to_string_inj: "nat_to_string m = nat_to_string n \<Longrightarrow> m = n"
proof (induction m arbitrary: n rule: nat_to_string.induct)
  case (1 m)
  show ?case
  proof (cases "m < 10")
    case m: True
    show ?thesis
    proof (cases "n < 10")
      case True
      with m "1.prems" show ?thesis
        by (simp add: nat_to_string_small digit_char_inj)
    next
      case False
      have "length (nat_to_string n) = Suc (length (nat_to_string (n div 10)))"
        using False by (simp add: nat_to_string_large)
      moreover have "length (nat_to_string m) = 1" using m by (simp add: nat_to_string_small)
      ultimately show ?thesis
        using "1.prems" nat_to_string_length [of "n div 10"] by simp
    qed
  next
    case m: False
    show ?thesis
    proof (cases "n < 10")
      case True
      have "length (nat_to_string m) = Suc (length (nat_to_string (m div 10)))"
        using m by (simp add: nat_to_string_large)
      moreover have "length (nat_to_string n) = 1" using True by (simp add: nat_to_string_small)
      ultimately show ?thesis
        using "1.prems" nat_to_string_length [of "m div 10"] by simp
    next
      case False
      from "1.prems" m False
      have eq: "nat_to_string (m div 10) = nat_to_string (n div 10)"
        and dg: "digit_char (m mod 10) = digit_char (n mod 10)"
        by (simp_all add: nat_to_string_large)
      have "m div 10 = n div 10" using "1.IH" [OF m eq] .
      moreover have "m mod 10 = n mod 10"
        using dg by (intro digit_char_inj) simp_all
      ultimately show ?thesis by (metis div_mult_mod_eq)
    qed
  qed
qed

lemma frame_file_name_inj:
  "0 \<le> i \<Longrightarrow> 0 \<le> j \<Longrightarrow> frame_file_name i = frame_file_name j \<Longrightarrow> i = j"
proof -
  assume i: "0 \<le> i" and j: "0 \<le> j" and eq: "frame_file_name i = frame_file_name j"
  from eq have "to_string i = to_string j"
    by (simp add: frame_file_name_def)
  with i j have "nat_to_string (nat i) = nat_to_string (nat j)"
    by (simp add: to_string_def)
  then have "nat i = nat j" by (rule nat_to_string_inj)
  with i j show "i = j" by simp
qed

lemma distinct_frame_files:
  "0 \<le> a \<Longrightarrow> distinct (map (\<lambda>i. frame_file_name (a + int i)) [0..<n])"
proof -
  assume a: "0 \<le> a"
  have "inj_on (\<lambda>i. frame_file_name (a + int i)) (set [0..<n])"
  proof (rule inj_onI)
    fix x y
    assume "frame_file_name (a + int x) = frame_file_name (a + int y)"
    moreover have "0 \<le> a + int x" "0 \<le> a + int y" using a by simp_all
    ultimately have "a + int x = a + int y" by (intro frame_file_name_inj)
    then show "x = y" by simp
  qed
  then show ?thesis by (simp add: distinct_map)
qed

lemma frame_file_name_1: "frame_file_name 1 = ''exportedFrames/1.png''"
  by (simp add: frame_file_name_def to_string_def nat_to_string_small digit_char_def)

lemma frame_file_name_600: "frame_file_name 600 = ''exportedFrames/600.png''"
  by (simp add: frame_file_name_def to_string_def nat_to_string.simps digit_char_def)

lemma frame_file_name_0: "frame_file_name 0 = ''exportedFrames/0.png''"
  by (simp add: frame_file_name_def to_string_def nat_to_string_small digit_char_def)

subsection \<open>The capture loop\<close>

lemma exported_names_600:
  "map file_name (exportedFrames (iterations 600 env 0 (main_setup env))) =
     map (\<lambda>i. frame_file_name (1 + int i)) [0..<600]"
  by (simp add: iterations_exported main_setup_counters del: upt_Suc)

text \<open>
  Claim C1. With the configuration of the program (60 frames per second, 10 seconds,
  so \<^verbatim>\<open>maxFrames\<close> = 600) the loop of \<^verbatim>\<open>main\<close> starts with \<^verbatim>\<open>totalFrame\<close> = 0 and nothing
  exported; every iteration adds one to \<^verbatim>\<open>totalFrame\<close>, issues one draw and writes one
  image file; the loop returns, after exactly 600 iterations of its body; after \<open>n\<close>
  iterations \<^verbatim>\<open>totalFrame\<close> is \<open>n\<close>, so the exit test \<^verbatim>\<open>totalFrame != maxFrames\<close> fails for
  the first time after the 600th; 600 files have then been written, under 600
  different names. This holds whatever the clock, the window events and the shader
  compiler do.
\<close>

theorem capture_loop_600_frames:
  "totalFrame (main_setup env) = 0 \<and>
   videoFPS (main_setup env) = 60 \<and>
   maxFrames (main_setup env) = 60 * 10 \<and>
   exportedFrames (main_setup env) = [] \<and>
   totalFrame (loop_body env k s) = totalFrame s + 1 \<and>
   length (exportedFrames (loop_body env k s)) = length (exportedFrames s) + 1 \<and>
   gl_draws (loop_body env k s) = gl_draws s + 1 \<and>
   main_loop env 0 (main_setup env) = Some (iterations 600 env 0 (main_setup env)) \<and>
   (\<forall>n. totalFrame (iterations n env 0 (main_setup env)) = int n) \<and>
   (\<forall>n. (totalFrame (iterations n env 0 (main_setup env)) =
          maxFrames (iterations n env 0 (main_setup env))) = (n = 600)) \<and>
   length (exportedFrames (iterations 600 env 0 (main_setup env))) = 600 \<and>
   gl_draws (iterations 600 env 0 (main_setup env)) = 600 \<and>
   distinct (map file_name (exportedFrames (iterations 600 env 0 (main_setup env))))"
proof -
  have "distinct (map file_name (exportedFrames (iterations 600 env 0 (main_setup env))))"
    unfolding exported_names_600 by (rule distinct_frame_files) simp
  then show ?thesis
    by (simp add: main_setup_counters loop_body_fields main_loop_600 iterations_counters)
qed

subsection \<open>The names of the exported files\<close>

lemma exported_names_main:
  "map file_name (exportedFrames (main_finish (iterations 600 env 0 (main_setup env)))) =
     map (\<lambda>i. frame_file_name (1 + int i)) [0..<600]"
  by (simp only: main_finish_fields exported_names_600)

text \<open>
  Claim C5, as amended. \<^verbatim>\<open>renderScene\<close> increments \<^verbatim>\<open>totalFrame\<close> before \<^verbatim>\<open>main\<close> makes the
  file name, so the frame with zero-based index \<open>i\<close> is written under the number
  \<open>i + 1\<close>, in plain decimal: \<^verbatim>\<open>main\<close> returns, and the files it has written are, in this
  order, \<^verbatim>\<open>exportedFrames/1.png\<close> to \<^verbatim>\<open>exportedFrames/600.png\<close>, with no gap and no name
  twice. The command that builds the video reads them from number 1 on
  (\<^verbatim>\<open>-start_number 1\<close>).
\<close>

theorem frame_files_numbered_from_one:
  "main env = Some (main_finish (iterations 600 env 0 (main_setup env))) \<and>
   map file_name (exportedFrames (main_finish (iterations 600 env 0 (main_setup env)))) =
     map (\<lambda>i. frame_file_name (1 + int i)) [0..<600] \<and>
   distinct (map (\<lambda>i. frame_file_name (1 + int i)) [0..<600]) \<and>
   frame_file_name j = ''exportedFrames/'' @ to_string j @ ''.png'' \<and>
   exportedFrames (loop_body env k s) =
     exportedFrames s @
       [\<lparr>file_name = frame_file_name (totalFrame s + 1),
         image_width = width (loop_body env k s),
         image_height = height (loop_body env k s)\<rparr>] \<and>
   commands (main_finish (iterations 600 env 0 (main_setup env))) =
     commands (iterations 600 env 0 (main_setup env)) @ [ffmpeg_command 60] \<and>
   ffmpeg_command 60 = ''ffmpeg -r 60 -start_number 1 -i exportedFrames/%d.png -q 0 test.avi''"
proof -
  have "distinct (map (\<lambda>i. frame_file_name (1 + int i)) [0..<600])"
    by (rule distinct_frame_files) simp
  moreover have "ffmpeg_command 60 =
      ''ffmpeg -r 60 -start_number 1 -i exportedFrames/%d.png -q 0 test.avi''"
    by (simp add: ffmpeg_command_def to_string_def nat_to_string.simps digit_char_def)
  moreover have "frame_file_name j = ''exportedFrames/'' @ to_string j @ ''.png''"
    by (simp add: frame_file_name_def)
  moreover have "exportedFrames (loop_body env k s) =
     exportedFrames s @
       [\<lparr>file_name = frame_file_name (totalFrame s + 1),
         image_width = width (loop_body env k s),
         image_height = height (loop_body env k s)\<rparr>]"
    by (simp add: loop_body_fields)
  moreover have "commands (main_finish (iterations 600 env 0 (main_setup env))) =
     commands (iterations 600 env 0 (main_setup env)) @ [ffmpeg_command 60]"
    by (simp add: main_finish_fields iterations_counters main_setup_counters)
  ultimately show ?thesis
    using main_eq [of env] exported_names_main [of env] by blast
qed

text \<open>
  Claim C5 as stated fails: the exported indices are not 0 to 599. In the session
  where nothing happens to the window, the first file written is
  \<^verbatim>\<open>exportedFrames/1.png\<close> and the last is \<^verbatim>\<open>exportedFrames/600.png\<close>.
\<close>

theorem frame_files_not_from_zero:
  "map file_name (exportedFrames (the (main idle_environment))) \<noteq>
     map (\<lambda>i. frame_file_name (int i)) [0..<600] \<and>
   hd (map file_name (exportedFrames (the (main idle_environment)))) =
     ''exportedFrames/1.png'' \<and>
   last (map file_name (exportedFrames (the (main idle_environment)))) =
     ''exportedFrames/600.png''"
proof -
  let ?names = "map file_name (exportedFrames (the (main idle_environment)))"
  have names: "?names = map (\<lambda>i. frame_file_name (1 + int i)) [0..<600]"
    by (simp only: main_eq option.sel exported_names_main)
  have h: "hd ?names = frame_file_name 1"
    unfolding names by (simp add: hd_map)
  have la: "last ?names = frame_file_name 600"
    unfolding names by (simp add: last_map)
  have "hd (map (\<lambda>i. frame_file_name (int i)) [0..<600]) = frame_file_name 0"
    by (simp add: hd_map)
  moreover have "frame_file_name 0 \<noteq> frame_file_name 1"
    by (simp add: frame_file_name_0 frame_file_name_1)
  ultimately have "?names \<noteq> map (\<lambda>i. frame_file_name (int i)) [0..<600]"
    using h by metis
  then show ?thesis
    using h la by (simp only: frame_file_name_1 frame_file_name_600) simp
qed

subsection \<open>Resizing, failed shaders and the sizes of the buffers\<close>

lemma init_with_shaders:
  "vertex_shader (init_with meshes env s) = gl_next_object s"
  "fragment_shader (init_with meshes env s) = Suc (gl_next_object s)"
  "compute_shader (init_with meshes env s) = Suc (Suc (gl_next_object s))"
  "gl_shaders (init_with meshes env s) =
     (gl_shaders s)
       (gl_next_object s :=
          (if compile_status env GL_VERTEX_SHADER
                (case file_contents env VertexShader_glsl of None \<Rightarrow> [] | Some c \<Rightarrow> c)
           then Some True else None),
        Suc (gl_next_object s) :=
          (if compile_status env GL_FRAGMENT_SHADER
                (case file_contents env FragmentShader_glsl of None \<Rightarrow> [] | Some c \<Rightarrow> c)
           then Some True else None),
        Suc (Suc (gl_next_object s)) :=
          (if compile_status env GL_COMPUTE_SHADER
                (case file_contents env Compute_glsl of None \<Rightarrow> [] | Some c \<Rightarrow> c)
           then Some True else None))"
  by (simp_all add: init_with_def chain_unfold cong: chain_cong)

lemma main_setup_console:
  "console (main_setup env) = console (init env initial_state)"
  "gl_shaders (main_setup env) = gl_shaders (init env initial_state)"
  "fragment_shader (main_setup env) = fragment_shader (init env initial_state)"
  by (simp_all add: main_setup_def Let_def)

text \<open>
  Claim C8, evaluated where it fails. The array \<^verbatim>\<open>pixels\<close> is allocated once, before the
  loop, with \<open>3 * 1280 * 720\<close> bytes, and no iteration changes its size. When the window
  is resized to 1920 by 1080 during the first iteration, the callback sets the width,
  the height and the viewport, and the read-back of that same iteration asks for
  1920 by 1080 pixels into the array of the old size, which is too small.
\<close>

theorem resize_reads_into_old_buffer:
  "pixels_size (main_setup resize_environment) = 3 * 1280 * 720 \<and>
   window_events resize_environment 0 = [(1920, 1080)] \<and>
   readbacks (loop_body resize_environment 0 (main_setup resize_environment)) =
     [\<lparr>rb_width = 1920, rb_height = 1080, rb_buffer_size = 3 * 1280 * 720\<rparr>] \<and>
   gl_viewport (loop_body resize_environment 0 (main_setup resize_environment)) =
     (0, 0, 1920, 1080) \<and>
   pixels_size (loop_body resize_environment 0 (main_setup resize_environment)) <
     3 * width (loop_body resize_environment 0 (main_setup resize_environment)) *
       height (loop_body resize_environment 0 (main_setup resize_environment)) \<and>
   pixels_size (iterations n env k s) = pixels_size s"
  by (simp add: loop_body_fields main_setup_counters iterations_counters
      resize_environment_def idle_environment_def)

text \<open>
  Claim C7, evaluated where it fails. When the fragment shader does not compile,
  \<^verbatim>\<open>createShader\<close> prints the info log and deletes the shader, and that is all:
  \<^verbatim>\<open>init\<close> goes on with the deleted name, \<^verbatim>\<open>main\<close> enters its loop, and 600 frames are
  drawn and written.
\<close>

theorem failed_shader_does_not_stop_session:
  "\<not> compile_status failing_environment GL_FRAGMENT_SHADER [] \<and>
   console (main_setup failing_environment) = [compile_failed_message, shader_error_text] \<and>
   gl_shaders (main_setup failing_environment)
     (fragment_shader (main_setup failing_environment)) = None \<and>
   main failing_environment =
     Some (main_finish (iterations 600 failing_environment 0 (main_setup failing_environment))) \<and>
   length (exportedFrames (the (main failing_environment))) = 600 \<and>
   gl_draws (the (main failing_environment)) = 600"
  by (simp add: main_eq main_finish_fields iterations_counters main_setup_counters
      main_setup_console init_def init_with_console init_with_shaders
      failing_environment_def idle_environment_def initial_state_def)

text \<open>
  Claim C9, evaluated where it fails. \<^verbatim>\<open>init\<close> gives the light buffer the size
  \<^verbatim>\<open>lightToFrag\<close>, its own name (4), where the size of two light records,
  \<^verbatim>\<open>lightToFragSize\<close> (96), is meant; the matrix buffer and the triangle buffer get the
  sizes of two matrices and of two meshes.
\<close>

theorem light_buffer_sized_by_its_name:
  "lightToFrag (main_setup env) = 4 \<and>
   gl_buffers (main_setup env) (lightToFrag (main_setup env)) =
     Some \<lparr>buf_size = int (lightToFrag (main_setup env)), buf_data = NullData\<rparr> \<and>
   lightToFragSize = 96 \<and>
   gl_buffers (main_setup env) (matrixBuffer (main_setup env)) =
     Some \<lparr>buf_size = 2 * sizeof_mat4, buf_data = NullData\<rparr> \<and>
   gl_buffers (main_setup env) (triangleBuffer (main_setup env)) =
     Some \<lparr>buf_size = 2 * sizeof_Mesh, buf_data = MeshData scene_meshes\<rparr>"
  by (simp add: main_setup_names main_setup_buffers lightToFragSize_def sizeof_light_def
      matrixBufferSize_def triangleBufferSize_def)

subsection \<open>The meshes of a session\<close>

text \<open>
  The meshes are constants of the code: \<^verbatim>\<open>init\<close> builds them with 2 and 12 triangles,
  each in an array of 12 slots of which exactly the first \<^verbatim>\<open>numTriangles\<close> are assigned,
  and the triangle buffer of every session holds these two meshes.
\<close>

lemma scene_meshes_counts:
  "map numTriangles scene_meshes = [2, 12]"
  "map (\<lambda>m. length (triangles m)) scene_meshes = [12, 12]"
  "map (\<lambda>m. length (takeWhile (\<lambda>t. t \<noteq> None) (triangles m))) scene_meshes = [2, 12]"
  "mesh_capacity = 12"
  by (simp_all add: scene_meshes_def mesh_capacity_def)

lemma session_triangle_buffer:
  "gl_buffers (main_setup env) (triangleBuffer (main_setup env)) =
     Some \<lparr>buf_size = triangleBufferSize, buf_data = MeshData scene_meshes\<rparr>"
  by (simp add: main_setup_buffers main_setup_names)

subsection \<open>The camera\<close>

text \<open>
  Claim C10. In every iteration of the loop the camera position is \<open>(0, 8, 8)\<close> and the
  uniforms delivered are those \<^verbatim>\<open>calcCameraRays\<close> computes from the eye \<open>(0, 8, 8)\<close>, the
  target \<open>(0, 0.5, 0)\<close>, the up vector \<open>(0, 1, 0)\<close>, 45 degrees and the ratio of the width
  to the height of the window; so two iterations that start with the same width and
  height deliver the same eye and corner rays, whatever else differs.
\<close>

theorem camera_inputs_constant:
  "cameraPos (loop_body env k s) = Vec3 0 8 8 \<and>
   gl_uniforms (loop_body env k s) =
     Some (calcCameraRays (Vec3 0 8 8) (Vec3 0 0.5 0) (Vec3 0 1 0) 45
             (real_of_int (width s) / real_of_int (height s))) \<and>
   (width s = width s' \<and> height s = height s' \<longrightarrow>
      gl_uniforms (loop_body env k s) = gl_uniforms (loop_body env' k' s'))"
  by (simp add: loop_body_fields)

text \<open>Frames 0 and 1 of a session, the second under another clock.\<close>

theorem camera_inputs_constant_witness:
  "width (main_setup idle_environment) =
     width (loop_body idle_environment 0 (main_setup idle_environment)) \<and>
   height (main_setup idle_environment) =
     height (loop_body idle_environment 0 (main_setup idle_environment)) \<and>
   gl_uniforms (loop_body idle_environment 0 (main_setup idle_environment)) =
     gl_uniforms (loop_body slow_environment 1
                    (loop_body idle_environment 0 (main_setup idle_environment)))"
  using camera_inputs_constant
    [of idle_environment 0 "main_setup idle_environment"
        "loop_body idle_environment 0 (main_setup idle_environment)" slow_environment 1]
  by (simp add: loop_body_fields main_setup_counters idle_environment_def)

subsection \<open>The content of a frame\<close>

lemma renderScene_content:
  assumes "matrixBuffer s \<noteq> 0" "lightToFrag s \<noteq> 0" "matrixBuffer s \<noteq> lightToFrag s"
  shows "frame_content (renderScene now s) =
     (Some \<lparr>buf_size = matrixBufferSize,
            buf_data = MatrixData (test_matrices
              (real_of_int (totalFrame s) / real_of_int (videoFPS s)))\<rparr>,
      Some \<lparr>buf_size = lightToFragSize,
            buf_data = LightData (lights_array
              (real_of_int (totalFrame s) / real_of_int (videoFPS s)))\<rparr>,
      Some (calcCameraRays (Vec3 0 8 8) (Vec3 0 0.5 0) (Vec3 0 1 0) 45
              (real_of_int (width s) / real_of_int (height s))))"
  using assms by (simp add: frame_content_def renderScene_fields)

lemma renderScene_content_eq:
  assumes "totalFrame s1 = totalFrame s2" "videoFPS s1 = videoFPS s2"
    "width s1 = width s2" "height s1 = height s2"
    "matrixBuffer s1 = matrixBuffer s2" "lightToFrag s1 = lightToFrag s2"
    "matrixBuffer s1 \<noteq> 0" "lightToFrag s1 \<noteq> 0"
  shows "frame_content (renderScene now1 s1) = frame_content (renderScene now2 s2)"
  using assms by (simp add: frame_content_def renderScene_fields)

lemma loop_body_content:
  "frame_content (loop_body env k s) = frame_content (renderScene (clock env k) s)"
  by (simp add: frame_content_def loop_body_fields renderScene_fields)

lemma iterations_Suc_end:
  "iterations (Suc n) env k s = loop_body env (k + n) (iterations n env k s)"
proof (induction n arbitrary: k s)
  case 0
  show ?case by simp
next
  case (Suc n)
  have "iterations (Suc (Suc n)) env k s = iterations (Suc n) env (Suc k) (loop_body env k s)"
    by simp
  also have "\<dots> = loop_body env (Suc k + n) (iterations n env (Suc k) (loop_body env k s))"
    by (rule Suc.IH)
  finally show ?case by simp
qed

lemma iterations_names:
  "matrixBuffer (iterations n env k s) = matrixBuffer s"
  "lightToFrag (iterations n env k s) = lightToFrag s"
  "triangleBuffer (iterations n env k s) = triangleBuffer s"
  by (induction n arbitrary: k s) (simp_all add: loop_body_fields)

lemma iterations_window:
  assumes "window_events env1 = window_events env2"
  shows "width s1 = width s2 \<Longrightarrow> height s1 = height s2 \<Longrightarrow>
         width (iterations n env1 k s1) = width (iterations n env2 k s2) \<and>
         height (iterations n env1 k s1) = height (iterations n env2 k s2)"
proof (induction n arbitrary: k s1 s2)
  case 0
  then show ?case by simp
next
  case (Suc n)
  have "width (loop_body env1 k s1) = width (loop_body env2 k s2)"
       "height (loop_body env1 k s1) = height (loop_body env2 k s2)"
    using Suc.prems assms by (simp_all add: loop_body_fields)
  then show ?case using Suc.IH by simp
qed

lemma session_frame_content:
  "frame_content (iterations (Suc n) env 0 (main_setup env)) =
     (Some \<lparr>buf_size = matrixBufferSize,
            buf_data = MatrixData (test_matrices (real n / 60))\<rparr>,
      Some \<lparr>buf_size = lightToFragSize,
            buf_data = LightData (lights_array (real n / 60))\<rparr>,
      Some (calcCameraRays (Vec3 0 8 8) (Vec3 0 0.5 0) (Vec3 0 1 0) 45
              (real_of_int (width (iterations n env 0 (main_setup env))) /
               real_of_int (height (iterations n env 0 (main_setup env))))))"
proof -
  let ?s = "iterations n env 0 (main_setup env)"
  have names: "matrixBuffer ?s = 2" "lightToFrag ?s = 4"
    by (simp_all add: iterations_names main_setup_names)
  have "frame_content (iterations (Suc n) env 0 (main_setup env)) =
        frame_content (renderScene (clock env n) ?s)"
    by (simp only: iterations_Suc_end loop_body_content) simp
  also have "\<dots> =
     (Some \<lparr>buf_size = matrixBufferSize,
            buf_data = MatrixData (test_matrices
              (real_of_int (totalFrame ?s) / real_of_int (videoFPS ?s)))\<rparr>,
      Some \<lparr>buf_size = lightToFragSize,
            buf_data = LightData (lights_array
              (real_of_int (totalFrame ?s) / real_of_int (videoFPS ?s)))\<rparr>,
      Some (calcCameraRays (Vec3 0 8 8) (Vec3 0 0.5 0) (Vec3 0 1 0) 45
              (real_of_int (width ?s) / real_of_int (height ?s))))"
    by (rule renderScene_content) (simp_all add: names)
  finally show ?thesis
    by (simp add: iterations_counters main_setup_counters)
qed

lemma setup_frame_content:
  "frame_content (main_setup env) =
     (Some \<lparr>buf_size = matrixBufferSize, buf_data = NullData\<rparr>,
      Some \<lparr>buf_size = 4, buf_data = NullData\<rparr>, None)"
  by (simp add: frame_content_def main_setup_names main_setup_buffers)
     (simp add: main_setup_def Let_def init_def init_with_counters initial_state_def)

lemma renderScene_clock_only_diagnostics:
  "without_diagnostics (renderScene now1 s) = without_diagnostics (renderScene now2 s)"
  by (rule state.equality) (simp_all add: without_diagnostics_def renderScene_fields)

text \<open>
  Claim C4. The content of a frame does not depend on the program time. Two calls of
  \<^verbatim>\<open>renderScene\<close> at any two clock readings, from states with the same \<^verbatim>\<open>totalFrame\<close>,
  configuration (frame rate, width, height) and buffer names, leave the same matrices,
  lights and camera uniforms; from one state, they leave states that differ at most in
  the variables of the frames-per-second display. Two whole sessions with the same
  window events, whatever their clocks, shader files and compilers, have the same
  content after every number of iterations; and the content of frame \<open>n\<close> is the
  function of \<open>n\<close> written out below, with the video time \<open>n / 60\<close>.
\<close>

theorem frame_content_independent_of_clock:
  "(totalFrame s1 = totalFrame s2 \<and> videoFPS s1 = videoFPS s2 \<and>
    width s1 = width s2 \<and> height s1 = height s2 \<and>
    matrixBuffer s1 = matrixBuffer s2 \<and> lightToFrag s1 = lightToFrag s2 \<and>
    matrixBuffer s1 \<noteq> 0 \<and> lightToFrag s1 \<noteq> 0 \<longrightarrow>
    frame_content (renderScene now1 s1) = frame_content (renderScene now2 s2)) \<and>
   without_diagnostics (renderScene now1 s1) = without_diagnostics (renderScene now2 s1) \<and>
   (window_events env1 = window_events env2 \<longrightarrow>
    frame_content (iterations n env1 0 (main_setup env1)) =
    frame_content (iterations n env2 0 (main_setup env2))) \<and>
   frame_content (iterations (Suc n) env 0 (main_setup env)) =
     (Some \<lparr>buf_size = matrixBufferSize,
            buf_data = MatrixData (test_matrices (real n / 60))\<rparr>,
      Some \<lparr>buf_size = lightToFragSize,
            buf_data = LightData (lights_array (real n / 60))\<rparr>,
      Some (calcCameraRays (Vec3 0 8 8) (Vec3 0 0.5 0) (Vec3 0 1 0) 45
              (real_of_int (width (iterations n env 0 (main_setup env))) /
               real_of_int (height (iterations n env 0 (main_setup env))))))"
proof -
  have run: "frame_content (iterations n env1 0 (main_setup env1)) =
             frame_content (iterations n env2 0 (main_setup env2))"
    if ev: "window_events env1 = window_events env2"
  proof (cases n)
    case 0
    then show ?thesis by (simp add: setup_frame_content)
  next
    case (Suc m)
    have "width (iterations m env1 0 (main_setup env1)) =
            width (iterations m env2 0 (main_setup env2)) \<and>
          height (iterations m env1 0 (main_setup env1)) =
            height (iterations m env2 0 (main_setup env2))"
      by (rule iterations_window [OF ev]) (simp_all add: main_setup_counters)
    then show ?thesis
      unfolding Suc session_frame_content by simp
  qed
  show ?thesis
    using run renderScene_content_eq [of s1 s2 now1 now2] session_frame_content [of n env]
      renderScene_clock_only_diagnostics [of now1 s1 now2]
    by blast
qed

text \<open>
  Two sessions, one at sixty frames per second of program time and one at two seconds
  per frame.
\<close>

theorem frame_content_independent_of_clock_witness:
  "totalFrame (main_setup idle_environment) = totalFrame (main_setup slow_environment) \<and>
   videoFPS (main_setup idle_environment) = videoFPS (main_setup slow_environment) \<and>
   width (main_setup idle_environment) = width (main_setup slow_environment) \<and>
   height (main_setup idle_environment) = height (main_setup slow_environment) \<and>
   matrixBuffer (main_setup idle_environment) = matrixBuffer (main_setup slow_environment) \<and>
   lightToFrag (main_setup idle_environment) = lightToFrag (main_setup slow_environment) \<and>
   matrixBuffer (main_setup idle_environment) \<noteq> 0 \<and>
   lightToFrag (main_setup idle_environment) \<noteq> 0 \<and>
   clock idle_environment 3 \<noteq> clock slow_environment 3 \<and>
   window_events idle_environment = window_events slow_environment \<and>
   frame_content (renderScene 0 (main_setup idle_environment)) =
     frame_content (renderScene 100 (main_setup slow_environment)) \<and>
   frame_content (iterations 3 idle_environment 0 (main_setup idle_environment)) =
     frame_content (iterations 3 slow_environment 0 (main_setup slow_environment))"
  using frame_content_independent_of_clock
    [of "main_setup idle_environment" "main_setup slow_environment" 0 100
        idle_environment slow_environment 3]
  by (simp add: main_setup_counters main_setup_names slow_environment_def idle_environment_def)

section \<open>Properties of the corner rays\<close>

subsection \<open>\<^verbatim>\<open>calcCameraRays\<close> does what the specification describes\<close>





lemma rotate_about_z_axis:
  "rotate_about (Vec3 0 0 1) angle (Vec3 1 0 0) = Vec3 (cos angle) (sin angle) 0"
  by (simp add: rotate_about_def normalize_def Let_def dot3_def cross_def vec3_smul_def
      vec3_add_def)



subsection \<open>The axes of the rotations are not zero\<close>














subsection \<open>The corner rays in closed form\<close>

















subsection \<open>Where the corner rays lie\<close>











end
